theory Spec2Isabelle
  imports Main "HOL-Library.Word"
begin

section \<open>JavaScript values and strings\<close>

text \<open>
  Runtime values as the transport helpers of \<^verbatim>\<open>utils.ts\<close> see them. Numbers are
  restricted to integers (floating point is outside the model); a \<^verbatim>\<open>Uint8Array\<close> stands
  for the binary members of \<^verbatim>\<open>BodyInit\<close>. An object is the list of its own enumerable
  properties in enumeration order, with distinct keys.
\<close>

datatype jsvalue =
    Undefined
  | Null
  | Boolean bool
  | Number int
  | String string
  | Array "jsvalue list"
  | Object "(string \<times> jsvalue) list"
  | Uint8Array "8 word list"

text \<open>\<^verbatim>\<open>typeof v\<close>.\<close>

fun typeof :: "jsvalue \<Rightarrow> string" where
  "typeof Undefined = ''undefined''"
| "typeof Null = ''object''"
| "typeof (Boolean b) = ''boolean''"
| "typeof (Number n) = ''number''"
| "typeof (String s) = ''string''"
| "typeof (Array vs) = ''object''"
| "typeof (Object ps) = ''object''"
| "typeof (Uint8Array bs) = ''object''"

text \<open>\<^verbatim>\<open>Array.isArray(v)\<close>.\<close>

fun isArray :: "jsvalue \<Rightarrow> bool" where
  "isArray (Array vs) = True"
| "isArray v = False"

text \<open>Truthiness, as the operator \<^verbatim>\<open>||\<close> tests its left operand.\<close>

fun truthy :: "jsvalue \<Rightarrow> bool" where
  "truthy Undefined = False"
| "truthy Null = False"
| "truthy (Boolean b) = b"
| "truthy (Number n) = (n \<noteq> 0)"
| "truthy (String s) = (s \<noteq> [])"
| "truthy (Array vs) = True"
| "truthy (Object ps) = True"
| "truthy (Uint8Array bs) = True"

text \<open>\<^verbatim>\<open>s.startsWith(p)\<close>, \<^verbatim>\<open>s.includes(p)\<close> and \<^verbatim>\<open>s.endsWith(p)\<close>.\<close>

fun startsWith :: "'a list \<Rightarrow> 'a list \<Rightarrow> bool" where
  "startsWith s [] = True"
| "startsWith [] (p # ps) = False"
| "startsWith (c # cs) (p # ps) = (c = p \<and> startsWith cs ps)"

fun includesStr :: "'a list \<Rightarrow> 'a list \<Rightarrow> bool" where
  "includesStr [] p = (p = [])"
| "includesStr (c # cs) p = (startsWith (c # cs) p \<or> includesStr cs p)"

definition endsWith :: "'a list \<Rightarrow> 'a list \<Rightarrow> bool" where
  "endsWith s p = startsWith (rev s) (rev p)"

text \<open>Decimal text of a non-negative integer, as a template literal prints a number.\<close>

definition digit_char :: "nat \<Rightarrow> char" where
  "digit_char d = ''0123456789'' ! (d mod 10)"

function show_nat :: "nat \<Rightarrow> string" where
  "show_nat n = (if n < 10 then [digit_char n] else show_nat (n div 10) @ [digit_char (n mod 10)])"
  by pat_completeness auto
termination
  by (relation "measure id") auto

declare show_nat.simps [simp del]

section \<open>Errors\<close>

text \<open>
  Everything a helper can throw. \<open>ResponseError m e s\<close> is an instance of the class
  \<^verbatim>\<open>ResponseError\<close>: \<open>m\<close> is the inherited \<^verbatim>\<open>message\<close>, the string \<^verbatim>\<open>super(error)\<close>
  stores, \<open>e\<close> the property \<^verbatim>\<open>error\<close> and \<open>s\<close> the property \<^verbatim>\<open>status_code\<close>. The others
  are the platform's exceptions: a rejected body read, a \<^verbatim>\<open>TypeError\<close> (a property
  access on \<^verbatim>\<open>null\<close>, a value without a string conversion), a rejected transport call,
  a string that \<^verbatim>\<open>new URL\<close> refuses. \<open>Unmodelled\<close> marks an input on which the model of
  the platform says nothing.
\<close>

datatype error =
    ResponseError string jsvalue nat
  | BodyReadError
  | TypeError
  | TransportError string
  | InvalidURL
  | Unmodelled

section \<open>JSON.stringify\<close>

text \<open>
  The platform's \<^verbatim>\<open>JSON.stringify\<close> on the values of the model: \<open>None\<close> stands for the
  result \<^verbatim>\<open>undefined\<close>. A property whose value has no JSON text is left out of an object
  and printed as \<^verbatim>\<open>null\<close> in an array; a typed array is printed as the object of its
  indices.
\<close>

definition show_int :: "int \<Rightarrow> string" where
  "show_int i = (if i < 0 then CHR ''-'' # show_nat (nat (- i)) else show_nat (nat i))"

definition hex_digit :: "nat \<Rightarrow> char" where
  "hex_digit d = ''0123456789abcdef'' ! (d mod 16)"

definition quote_char :: "char \<Rightarrow> string" where
  "quote_char c =
     (if c = CHR 0x08 then [CHR 0x5C, CHR ''b'']
      else if c = CHR 0x09 then [CHR 0x5C, CHR ''t'']
      else if c = CHR 0x0A then [CHR 0x5C, CHR ''n'']
      else if c = CHR 0x0C then [CHR 0x5C, CHR ''f'']
      else if c = CHR 0x0D then [CHR 0x5C, CHR ''r'']
      else if c = CHR 0x22 then [CHR 0x5C, CHR 0x22]
      else if c = CHR 0x5C then [CHR 0x5C, CHR 0x5C]
      else if of_char c < (32::nat) then
        [CHR 0x5C, CHR ''u'', CHR ''0'', CHR ''0'',
         hex_digit (of_char c div 16), hex_digit (of_char c mod 16)]
      else [c])"

definition quoteJSONString :: "string \<Rightarrow> string" where
  "quoteJSONString s = CHR 0x22 # concat (map quote_char s) @ [CHR 0x22]"

fun join_comma :: "string list \<Rightarrow> string" where
  "join_comma [] = []"
| "join_comma [x] = x"
| "join_comma (x # y # ys) = x @ CHR '','' # join_comma (y # ys)"

fun index_properties :: "nat \<Rightarrow> 8 word list \<Rightarrow> string list" where
  "index_properties i [] = []"
| "index_properties i (b # bs) =
     (quoteJSONString (show_nat i) @ CHR '':'' # show_nat (unat b)) # index_properties (Suc i) bs"

fun serializeJSONProperty :: "jsvalue \<Rightarrow> string option"
  and serializeJSONArray :: "jsvalue list \<Rightarrow> string list"
  and serializeJSONObject :: "(string \<times> jsvalue) list \<Rightarrow> string list"
where
  "serializeJSONProperty Undefined = None"
| "serializeJSONProperty Null = Some ''null''"
| "serializeJSONProperty (Boolean b) = Some (if b then ''true'' else ''false'')"
| "serializeJSONProperty (Number n) = Some (show_int n)"
| "serializeJSONProperty (String s) = Some (quoteJSONString s)"
| "serializeJSONProperty (Array vs) = Some (CHR ''['' # join_comma (serializeJSONArray vs) @ '']'')"
| "serializeJSONProperty (Object ps) =
     Some (CHR ''{'' # join_comma (serializeJSONObject ps) @ ''}'')"
| "serializeJSONProperty (Uint8Array bs) =
     Some (CHR ''{'' # join_comma (index_properties 0 bs) @ ''}'')"
| "serializeJSONArray [] = []"
| "serializeJSONArray (v # vs) =
     (case serializeJSONProperty v of None \<Rightarrow> ''null'' | Some t \<Rightarrow> t) # serializeJSONArray vs"
| "serializeJSONObject [] = []"
| "serializeJSONObject (p # ps) =
     (case serializeJSONProperty (snd p) of
        None \<Rightarrow> serializeJSONObject ps
      | Some t \<Rightarrow> (quoteJSONString (fst p) @ CHR '':'' # t) # serializeJSONObject ps)"

definition JSON_stringify :: "jsvalue \<Rightarrow> jsvalue" where
  "JSON_stringify v = (case serializeJSONProperty v of None \<Rightarrow> Undefined | Some t \<Rightarrow> String t)"

section \<open>ToString and the ResponseError constructor\<close>

text \<open>
  The platform's \<^verbatim>\<open>ToString\<close>, which the constructor of \<^verbatim>\<open>Error\<close> applies to its
  argument. An array is joined with commas, \<^verbatim>\<open>null\<close> and \<^verbatim>\<open>undefined\<close> elements giving
  the empty string. A plain object gives \<^verbatim>\<open>[object Object]\<close> unless it has an own
  property \<^verbatim>\<open>toString\<close>: that property, which in a parsed JSON value is never a function,
  hides the inherited method, the inherited \<^verbatim>\<open>valueOf\<close> returns the object itself, and
  the conversion throws a \<^verbatim>\<open>TypeError\<close>. A number prints as its decimal digits up to
  \<open>2 ^ 53\<close>; beyond that the model says nothing.
\<close>

fun ToString :: "jsvalue \<Rightarrow> error + string"
  and element_strings :: "jsvalue list \<Rightarrow> error + string list"
where
  "ToString Undefined = Inr ''undefined''"
| "ToString Null = Inr ''null''"
| "ToString (Boolean b) = Inr (if b then ''true'' else ''false'')"
| "ToString (Number n) = (if \<bar>n\<bar> \<le> 2 ^ 53 then Inr (show_int n) else Inl Unmodelled)"
| "ToString (String s) = Inr s"
| "ToString (Array vs) =
     (case element_strings vs of Inl e \<Rightarrow> Inl e | Inr ss \<Rightarrow> Inr (join_comma ss))"
| "ToString (Object ps) =
     (if ''toString'' \<in> set (map fst ps) then Inl TypeError else Inr ''[object Object]'')"
| "ToString (Uint8Array bs) = Inr (join_comma (map (\<lambda>b. show_nat (unat b)) bs))"
| "element_strings [] = Inr []"
| "element_strings (v # vs) =
     (case (if v = Undefined \<or> v = Null then Inr [] else ToString v) of
        Inl e \<Rightarrow> Inl e
      | Inr s \<Rightarrow> (case element_strings vs of Inl e \<Rightarrow> Inl e | Inr ss \<Rightarrow> Inr (s # ss)))"

text \<open>
  What \<^verbatim>\<open>throw new ResponseError(error, status_code)\<close> throws: the constructor first
  runs \<^verbatim>\<open>super(error)\<close>, which converts an argument other than \<^verbatim>\<open>undefined\<close> to a
  string and may throw in doing so (for \<^verbatim>\<open>undefined\<close> the message stays empty), and
  only then sets the two properties.
\<close>

definition throw_new_ResponseError :: "jsvalue \<Rightarrow> nat \<Rightarrow> error" where
  "throw_new_ResponseError error status_code =
     (if error = Undefined then ResponseError [] error status_code
      else
        (case ToString error of
           Inl e \<Rightarrow> e
         | Inr message \<Rightarrow> ResponseError message error status_code))"

section \<open>checkOk\<close>

text \<open>
  The part of a \<^verbatim>\<open>Response\<close> that \<^verbatim>\<open>checkOk\<close> reads: the flag \<^verbatim>\<open>ok\<close>, \<^verbatim>\<open>status\<close>,
  \<^verbatim>\<open>statusText\<close>, the value of \<^verbatim>\<open>headers.get('content-type')\<close> (\<open>None\<close> for
  \<^verbatim>\<open>null\<close>), and the outcomes of awaiting \<^verbatim>\<open>json()\<close> and \<^verbatim>\<open>text()\<close>: a rejection or
  the value read.
\<close>

record response =
  ok :: bool
  status :: nat
  statusText :: string
  content_type :: "string option"
  json_body :: "error + jsvalue"
  text_body :: "error + string"

text \<open>
  The lines \<^verbatim>\<open>checkOk\<close> writes with \<^verbatim>\<open>console.log\<close>, named by their key in \<^verbatim>\<open>MESSAGES\<close>
  (the texts live in \<^verbatim>\<open>constants\<close>, which is not among the sources).
\<close>

datatype log_entry = ERROR_JSON_PARSE | FETCHING_TEXT | ERROR_FETCHING_TEXT

text \<open>
  \<^verbatim>\<open>errorData.error\<close>: reading a property of \<^verbatim>\<open>null\<close> or \<^verbatim>\<open>undefined\<close> throws a
  \<^verbatim>\<open>TypeError\<close>; a value without the property gives \<^verbatim>\<open>undefined\<close>.
\<close>

fun get_error :: "jsvalue \<Rightarrow> error + jsvalue" where
  "get_error Undefined = Inl TypeError"
| "get_error Null = Inl TypeError"
| "get_error (Object ps) = Inr (case map_of ps ''error'' of None \<Rightarrow> Undefined | Some v \<Rightarrow> v)"
| "get_error v = Inr Undefined"

definition default_message :: "'a response_scheme \<Rightarrow> string" where
  "default_message r = ''Error '' @ show_nat (status r) @ '': '' @ statusText r"

definition is_json_content :: "'a response_scheme \<Rightarrow> bool" where
  "is_json_content r =
     (case content_type r of None \<Rightarrow> False | Some ct \<Rightarrow> includesStr ct ''application/json'')"

text \<open>
  \<^verbatim>\<open>checkOk\<close> returns the console lines written and either the thrown error or unit.
  The \<^verbatim>\<open>throw\<close> at its end is outside both \<^verbatim>\<open>try\<close> blocks.
\<close>

definition checkOk :: "'a response_scheme \<Rightarrow> log_entry list \<times> (error + unit)" where
  "checkOk r =
     (if ok r then ([], Inr ())
      else
        let message = String (default_message r) in
        if is_json_content r then
          (case json_body r of
             Inl e \<Rightarrow> ([ERROR_JSON_PARSE], Inl (throw_new_ResponseError message (status r)))
           | Inr errorData \<Rightarrow>
               (case get_error errorData of
                  Inl e \<Rightarrow> ([ERROR_JSON_PARSE], Inl (throw_new_ResponseError message (status r)))
                | Inr v \<Rightarrow>
                    ([], Inl (throw_new_ResponseError (if truthy v then v else message)
                               (status r)))))
        else
          (case text_body r of
             Inl e \<Rightarrow>
               ([FETCHING_TEXT, ERROR_FETCHING_TEXT],
                Inl (throw_new_ResponseError message (status r)))
           | Inr textResponse \<Rightarrow>
               ([FETCHING_TEXT],
                Inl (throw_new_ResponseError
                       (if textResponse \<noteq> [] then String textResponse else message)
                       (status r)))))"

text \<open>
  The message as the specification derives it, in its priority order: with a JSON
  content type, the \<^verbatim>\<open>error\<close> field of the parsed body when the body parses and the
  field is present and not empty, else the default; with any other content type, the body
  text when it can be read and is not empty, else the default. A field is empty when it
  is one of the values JavaScript treats as false.
\<close>

definition error_field :: "jsvalue \<Rightarrow> jsvalue option" where
  "error_field v = (case v of Object ps \<Rightarrow> map_of ps ''error'' | _ \<Rightarrow> None)"

definition spec_message :: "'a response_scheme \<Rightarrow> jsvalue" where
  "spec_message r =
     (if is_json_content r then
        (case json_body r of
           Inl e \<Rightarrow> String (default_message r)
         | Inr body \<Rightarrow>
             (case error_field body of
                None \<Rightarrow> String (default_message r)
              | Some f \<Rightarrow> if truthy f then f else String (default_message r)))
      else
        (case text_body r of
           Inl e \<Rightarrow> String (default_message r)
         | Inr t \<Rightarrow> if t = [] then String (default_message r) else String t))"

section \<open>The request wrappers\<close>

text \<open>
  \<^verbatim>\<open>RequestInit\<close> as the wrappers fill it: an absent field is \<open>None\<close> (\<^verbatim>\<open>undefined\<close> for
  the body). The type \<open>'s\<close> is that of abort signals. Headers are a list of pairs with
  distinct names.
\<close>

record 's request_init = "method" :: "string option"
  headers :: "(string \<times> string) list option"
  body :: jsvalue
  signal :: "'s option"

text \<open>The parameter \<^verbatim>\<open>options?: { signal: AbortSignal }\<close> of \<^verbatim>\<open>post\<close>.\<close>

datatype 's post_options = Options (options_signal: 's)

text \<open>
  The transport function \<^verbatim>\<open>Fetch\<close>: it either rejects or resolves to a response.
\<close>

type_synonym ('s, 'a) Fetch = "string \<Rightarrow> 's request_init \<Rightarrow> error + 'a response_scheme"

text \<open>
  What \<^verbatim>\<open>fetchWithHeaders\<close> reads from its surroundings: the imported \<^verbatim>\<open>version\<close> and
  the string \<^verbatim>\<open>getPlatform()\<close> returns.
\<close>

record ambient =
  version :: string
  platform :: string

definition defaultHeaders :: "ambient \<Rightarrow> (string \<times> string) list" where
  "defaultHeaders amb =
     [(''Content-Type'', ''application/json''),
      (''Accept'', ''application/json''),
      (''User-Agent'', ''ollama-js/'' @ version amb @ '' ('' @ platform amb @ '')'')]"

text \<open>The object spread \<^verbatim>\<open>{ ...a, ...b }\<close>: the properties of \<open>b\<close> override those of \<open>a\<close>.\<close>

fun assign :: "string \<Rightarrow> string \<Rightarrow> (string \<times> string) list \<Rightarrow> (string \<times> string) list" where
  "assign k v [] = [(k, v)]"
| "assign k v (p # ps) = (if fst p = k then (k, v) # ps else p # assign k v ps)"

definition spread :: "(string \<times> string) list \<Rightarrow> (string \<times> string) list \<Rightarrow> (string \<times> string) list" where
  "spread a b = fold (\<lambda>p acc. assign (fst p) (snd p) acc) b a"

definition no_options :: "'s request_init" where
  "no_options = \<lparr> method = None, headers = None, body = Undefined, signal = None \<rparr>"

definition fetchWithHeaders ::
  "ambient \<Rightarrow> ('s, 'a) Fetch \<Rightarrow> string \<Rightarrow> 's request_init \<Rightarrow> error + 'a response_scheme" where
  "fetchWithHeaders amb fetch url options =
     (let options1 = (case headers options of
                        None \<Rightarrow> options\<lparr>headers := Some []\<rparr>
                      | Some h \<Rightarrow> options);
          options2 = options1\<lparr>headers :=
                       Some (spread (defaultHeaders amb)
                               (case headers options1 of None \<Rightarrow> [] | Some h \<Rightarrow> h))\<rparr>
      in fetch url options2)"

text \<open>
  Each wrapper returns the console lines of \<^verbatim>\<open>checkOk\<close> and either the error thrown
  (by the transport or by \<^verbatim>\<open>checkOk\<close>) or the response.
\<close>

definition get ::
  "ambient \<Rightarrow> ('s, 'a) Fetch \<Rightarrow> string \<Rightarrow> log_entry list \<times> (error + 'a response_scheme)" where
  "get amb fetch host =
     (case fetchWithHeaders amb fetch host no_options of
        Inl e \<Rightarrow> ([], Inl e)
      | Inr response \<Rightarrow>
          (case checkOk response of
             (out, Inl e) \<Rightarrow> (out, Inl e)
           | (out, Inr u) \<Rightarrow> (out, Inr response)))"

definition head ::
  "ambient \<Rightarrow> ('s, 'a) Fetch \<Rightarrow> string \<Rightarrow> log_entry list \<times> (error + 'a response_scheme)" where
  "head amb fetch host =
     (case fetchWithHeaders amb fetch host
             \<lparr> method = Some ''HEAD'', headers = None, body = Undefined, signal = None \<rparr> of
        Inl e \<Rightarrow> ([], Inl e)
      | Inr response \<Rightarrow>
          (case checkOk response of
             (out, Inl e) \<Rightarrow> (out, Inl e)
           | (out, Inr u) \<Rightarrow> (out, Inr response)))"

definition isRecord :: "jsvalue \<Rightarrow> bool" where
  "isRecord input = (input \<noteq> Null \<and> typeof input = ''object'' \<and> \<not> isArray input)"

definition post ::
  "ambient \<Rightarrow> ('s, 'a) Fetch \<Rightarrow> string \<Rightarrow> jsvalue \<Rightarrow> 's post_options option
     \<Rightarrow> log_entry list \<times> (error + 'a response_scheme)" where
  "post amb fetch host data options =
     (let formattedData = (if isRecord data then JSON_stringify data else data) in
      case fetchWithHeaders amb fetch host
             \<lparr> method = Some ''POST'', headers = None, body = formattedData,
               signal = map_option options_signal options \<rparr> of
        Inl e \<Rightarrow> ([], Inl e)
      | Inr response \<Rightarrow>
          (case checkOk response of
             (out, Inl e) \<Rightarrow> (out, Inl e)
           | (out, Inr u) \<Rightarrow> (out, Inr response)))"

definition del ::
  "ambient \<Rightarrow> ('s, 'a) Fetch \<Rightarrow> string \<Rightarrow> jsvalue
     \<Rightarrow> log_entry list \<times> (error + 'a response_scheme)" where
  "del amb fetch host data =
     (case fetchWithHeaders amb fetch host
             \<lparr> method = Some ''DELETE'', headers = None, body = JSON_stringify data,
               signal = None \<rparr> of
        Inl e \<Rightarrow> ([], Inl e)
      | Inr response \<Rightarrow>
          (case checkOk response of
             (out, Inl e) \<Rightarrow> (out, Inl e)
           | (out, Inr u) \<Rightarrow> (out, Inr response)))"

text \<open>
  A transport that answers every call with a bare 200 response carrying, in the
  extension of the record, the URL and the request it was called with.
\<close>

definition echo :: "('s, string \<times> 's request_init) Fetch" where
  "echo url options =
     Inr \<lparr> ok = True, status = 200, statusText = ''OK'', content_type = None,
           json_body = Inl BodyReadError, text_body = Inr [], \<dots> = (url, options) \<rparr>"

definition node_ambient :: ambient where
  "node_ambient = \<lparr> version = ''0.0.0'', platform = ''x64 linux Node.js/v20.0.0'' \<rparr>"

text \<open>
  What a caller gets from the outcome of the transport call: a rejection as it is, a
  response after \<^verbatim>\<open>checkOk\<close>.
\<close>

definition validated ::
  "error + 'a response_scheme \<Rightarrow> log_entry list \<times> (error + 'a response_scheme)" where
  "validated outcome =
     (case outcome of
        Inl e \<Rightarrow> ([], Inl e)
      | Inr response \<Rightarrow>
          (case snd (checkOk response) of
             Inl e \<Rightarrow> (fst (checkOk response), Inl e)
           | Inr u \<Rightarrow> (fst (checkOk response), Inr response)))"


section \<open>TextDecoder\<close>

text \<open>
  JavaScript strings in the stream decoder are lists of UTF-16 code units.
\<close>

type_synonym jstext = "nat list"

text \<open>
  The UTF-8 decoder of the Encoding Standard, which \<^verbatim>\<open>TextDecoder\<close> runs: the state holds
  the code point being assembled, the bytes seen and needed, and the bounds of the next
  continuation byte. A malformed sequence gives U+FFFD, and the byte that broke it is
  read again as the first byte of a new sequence.
\<close>

record decoder_state =
  code_point :: nat
  bytes_seen :: nat
  bytes_needed :: nat
  lower_boundary :: nat
  upper_boundary :: nat

definition initial_state :: decoder_state where
  "initial_state =
     \<lparr> code_point = 0, bytes_seen = 0, bytes_needed = 0,
       lower_boundary = 0x80, upper_boundary = 0xBF \<rparr>"

text \<open>A byte read when no sequence is open: the output and the next state.\<close>

definition first_byte :: "nat \<Rightarrow> nat list \<times> decoder_state" where
  "first_byte b =
     (if b \<le> 0x7F then ([b], initial_state)
      else if 0xC2 \<le> b \<and> b \<le> 0xDF then
        ([], initial_state\<lparr>bytes_needed := 1, code_point := b mod 0x20\<rparr>)
      else if 0xE0 \<le> b \<and> b \<le> 0xEF then
        ([], initial_state\<lparr>bytes_needed := 2, code_point := b mod 0x10,
               lower_boundary := (if b = 0xE0 then 0xA0 else 0x80),
               upper_boundary := (if b = 0xED then 0x9F else 0xBF)\<rparr>)
      else if 0xF0 \<le> b \<and> b \<le> 0xF4 then
        ([], initial_state\<lparr>bytes_needed := 3, code_point := b mod 0x08,
               lower_boundary := (if b = 0xF0 then 0x90 else 0x80),
               upper_boundary := (if b = 0xF4 then 0x8F else 0xBF)\<rparr>)
      else ([0xFFFD], initial_state))"

fun utf8_decoder :: "decoder_state \<Rightarrow> 8 word list \<Rightarrow> nat list" where
  "utf8_decoder s [] = (if bytes_needed s \<noteq> 0 then [0xFFFD] else [])"
| "utf8_decoder s (byte # bytes) =
     (let b = unat byte in
      if bytes_needed s = 0 then
        fst (first_byte b) @ utf8_decoder (snd (first_byte b)) bytes
      else if b < lower_boundary s \<or> upper_boundary s < b then
        0xFFFD # fst (first_byte b) @ utf8_decoder (snd (first_byte b)) bytes
      else
        let cp = code_point s * 0x40 + b mod 0x40 in
        if bytes_seen s + 1 \<noteq> bytes_needed s then
          utf8_decoder
            (s\<lparr>lower_boundary := 0x80, upper_boundary := 0xBF, code_point := cp,
                bytes_seen := bytes_seen s + 1\<rparr>) bytes
        else cp # utf8_decoder initial_state bytes)"

text \<open>A code point as UTF-16 code units.\<close>

definition utf16 :: "nat \<Rightarrow> jstext" where
  "utf16 cp =
     (if cp < 0x10000 then [cp]
      else [0xD800 + (cp - 0x10000) div 0x400, 0xDC00 + (cp - 0x10000) mod 0x400])"

text \<open>
  \<^verbatim>\<open>decoder.decode(chunk)\<close>, called without \<^verbatim>\<open>{ stream: true }\<close>: the call starts from a
  fresh decoder state, flushes an unfinished sequence at the end of the chunk, and drops
  a byte order mark at the start of its output.
\<close>

definition decode :: "8 word list \<Rightarrow> jstext" where
  "decode chunk =
     (let output = utf8_decoder initial_state chunk
      in concat (map utf16 (case output of
                              [] \<Rightarrow> []
                            | item # items \<Rightarrow> if item = 0xFEFF then items else item # items)))"

section \<open>parseJSON\<close>

text \<open>\<^verbatim>\<open>s.split(sep)\<close> for a separator of one code unit.\<close>

fun split :: "'a \<Rightarrow> 'a list \<Rightarrow> 'a list list" where
  "split sep [] = [[]]"
| "split sep (c # cs) =
     (if c = sep then [] # split sep cs
      else (case split sep cs of [] \<Rightarrow> [[c]] | part # parts \<Rightarrow> (c # part) # parts))"

text \<open>
  \<^verbatim>\<open>parts.pop() ?? EMPTY_STRING\<close>: the array without its last element, and that element
  (the empty string for an empty array). Modelled from the spec: \<^verbatim>\<open>EMPTY_STRING\<close>, from
  the missing \<^verbatim>\<open>constants\<close>, is the empty string.
\<close>

definition EMPTY_STRING :: jstext where
  "EMPTY_STRING = []"

definition pop :: "jstext list \<Rightarrow> jstext list \<times> jstext" where
  "pop parts = (case rev parts of [] \<Rightarrow> ([], EMPTY_STRING) | l # r \<Rightarrow> (rev r, l))"

text \<open>
  What the generator does, in order: it yields a value, or writes a warning with the part
  that \<^verbatim>\<open>JSON.parse\<close> refused.
\<close>

datatype 'a event = Yield 'a | Warn jstext

definition new_line :: nat where
  "new_line = 0x0A"

text \<open>The \<^verbatim>\<open>for\<close> loop over parts, with its \<^verbatim>\<open>try\<close> and \<^verbatim>\<open>catch\<close>.\<close>

fun for_parts :: "(jstext \<Rightarrow> 'a option) \<Rightarrow> jstext list \<Rightarrow> 'a event list" where
  "for_parts parse [] = []"
| "for_parts parse (part # parts) =
     (case parse part of Some v \<Rightarrow> Yield v | None \<Rightarrow> Warn part) # for_parts parse parts"

text \<open>
  The \<^verbatim>\<open>while\<close> loop over the chunks the reader delivers until it reports \<^verbatim>\<open>done\<close>:
  the events of the loop and the buffer it leaves.
\<close>

fun read_loop :: "(jstext \<Rightarrow> 'a option) \<Rightarrow> jstext \<Rightarrow> 8 word list list \<Rightarrow> 'a event list \<times> jstext" where
  "read_loop parse buffer [] = ([], buffer)"
| "read_loop parse buffer (chunk # chunks) =
     (let buffer1 = buffer @ decode chunk;
          parts = split new_line buffer1;
          buffer2 = snd (pop parts);
          events = for_parts parse (fst (pop parts));
          rest = read_loop parse buffer2 chunks
      in (events @ fst rest, snd rest))"

text \<open>
  \<^verbatim>\<open>parseJSON\<close> on a stream that delivers the given chunks and then ends; \<open>parse\<close> is
  \<^verbatim>\<open>JSON.parse\<close>, with \<open>None\<close> for a thrown \<^verbatim>\<open>SyntaxError\<close>.
\<close>

definition parseJSON :: "(jstext \<Rightarrow> 'a option) \<Rightarrow> 8 word list list \<Rightarrow> 'a event list" where
  "parseJSON parse itr =
     (let loop = read_loop parse EMPTY_STRING itr;
          buffer = snd loop
      in fst loop @ for_parts parse (filter (\<lambda>p. p \<noteq> []) (split new_line buffer)))"

fun yields :: "'a event list \<Rightarrow> 'a list" where
  "yields [] = []"
| "yields (Yield v # es) = v # yields es"
| "yields (Warn p # es) = yields es"

text \<open>
  The text the generator works on: the chunks decoded one by one, each by its own call of
  \<^verbatim>\<open>decode\<close>, and the parts of that text the loops hand to \<^verbatim>\<open>JSON.parse\<close>: every part
  before the last line feed, and the rest after it when it is not empty.
\<close>

definition chunkwise_text :: "8 word list list \<Rightarrow> jstext" where
  "chunkwise_text itr = concat (map decode itr)"

definition chunkwise_parts :: "8 word list list \<Rightarrow> jstext list" where
  "chunkwise_parts itr =
     (let parts = split new_line (chunkwise_text itr)
      in butlast parts @ (if last parts = [] then [] else [last parts]))"

text \<open>
  The lines of the byte stream, as the specification has them: the bytes of all chunks
  decoded as one continuous UTF-8 text, whatever the chunk boundaries; every part before
  a line feed is a line, and so is the rest after the last one when it is not empty.
\<close>

definition byte_stream_text :: "8 word list list \<Rightarrow> jstext" where
  "byte_stream_text itr = decode (concat itr)"

definition byte_stream_lines :: "8 word list list \<Rightarrow> jstext list" where
  "byte_stream_lines itr =
     (let parts = split new_line (byte_stream_text itr)
      in butlast parts @ (if last parts = [] then [] else [last parts]))"

section \<open>JSON.parse\<close>

text \<open>
  The platform's \<^verbatim>\<open>JSON.parse\<close>: a lexer and a pushdown recogniser for the JSON grammar.
  A number is kept as mantissa and decimal exponent, as it is written; an object keeps
  the last value given for a key.
\<close>

datatype json =
    JNull
  | JBool bool
  | JNumber int int
  | JString jstext
  | JArray "json list"
  | JObject "(jstext \<times> json) list"

datatype token =
    LBrace | RBrace | LBracket | RBracket | Colon | Comma
  | TString jstext | TNumber int int | TTrue | TFalse | TNull

definition str :: "string \<Rightarrow> jstext" where
  "str s = map of_char s"

definition is_digit :: "nat \<Rightarrow> bool" where
  "is_digit c = (0x30 \<le> c \<and> c \<le> 0x39)"

definition hex_value :: "nat \<Rightarrow> nat option" where
  "hex_value c =
     (if 0x30 \<le> c \<and> c \<le> 0x39 then Some (c - 0x30)
      else if 0x41 \<le> c \<and> c \<le> 0x46 then Some (c - 0x41 + 10)
      else if 0x61 \<le> c \<and> c \<le> 0x66 then Some (c - 0x61 + 10)
      else None)"

definition unescape :: "nat \<Rightarrow> nat option" where
  "unescape e =
     (if e = 0x22 then Some 0x22
      else if e = 0x5C then Some 0x5C
      else if e = 0x2F then Some 0x2F
      else if e = 0x62 then Some 0x08
      else if e = 0x66 then Some 0x0C
      else if e = 0x6E then Some 0x0A
      else if e = 0x72 then Some 0x0D
      else if e = 0x74 then Some 0x09
      else None)"

fun hex4 :: "jstext \<Rightarrow> (nat \<times> jstext) option" where
  "hex4 (h1 # h2 # h3 # h4 # cs) =
     (case hex_value h1 of None \<Rightarrow> None | Some a \<Rightarrow>
      case hex_value h2 of None \<Rightarrow> None | Some b \<Rightarrow>
      case hex_value h3 of None \<Rightarrow> None | Some c \<Rightarrow>
      case hex_value h4 of None \<Rightarrow> None | Some d \<Rightarrow>
        Some (((a * 16 + b) * 16 + c) * 16 + d, cs))"
| "hex4 cs = None"

fun scan_escape :: "jstext \<Rightarrow> (nat \<times> jstext) option" where
  "scan_escape [] = None"
| "scan_escape (e # cs) =
     (if e = 0x75 then hex4 cs
      else (case unescape e of None \<Rightarrow> None | Some u \<Rightarrow> Some (u, cs)))"

lemma hex4_shorter: "hex4 cs = Some (u, rest) \<Longrightarrow> length rest < length cs"
  by (induction cs rule: hex4.induct) (auto split: option.splits)

lemma scan_escape_shorter: "scan_escape cs = Some (u, rest) \<Longrightarrow> length rest < length cs"
  by (cases cs) (auto split: if_splits option.splits dest: hex4_shorter)

function scan_string :: "jstext \<Rightarrow> jstext \<Rightarrow> (jstext \<times> jstext) option" where
  "scan_string acc [] = None"
| "scan_string acc (c # cs) =
     (if c = 0x22 then Some (rev acc, cs)
      else if c = 0x5C then
        (case scan_escape cs of
           None \<Rightarrow> None
         | Some (u, rest) \<Rightarrow> scan_string (u # acc) rest)
      else if c < 0x20 then None
      else scan_string (c # acc) cs)"
  by pat_completeness auto
termination
  by (relation "measure (\<lambda>(acc, cs). length cs)") (auto dest: scan_escape_shorter)

definition digits_value :: "jstext \<Rightarrow> nat" where
  "digits_value ds = foldl (\<lambda>n d. 10 * n + (d - 0x30)) 0 ds"

text \<open>The integer part: an optional minus sign, then \<^verbatim>\<open>0\<close> or digits without a leading zero.\<close>

definition scan_int :: "jstext \<Rightarrow> (bool \<times> jstext \<times> jstext) option" where
  "scan_int cs =
     (let negative = (case cs of [] \<Rightarrow> False | c # r \<Rightarrow> c = 0x2D);
          r0 = (if negative then tl cs else cs);
          ints = takeWhile is_digit r0
      in if ints = [] \<or> (1 < length ints \<and> hd ints = 0x30) then None
         else Some (negative, ints, dropWhile is_digit r0))"

text \<open>The fraction: nothing, or a point and at least one digit.\<close>

definition scan_frac :: "jstext \<Rightarrow> (jstext \<times> jstext) option" where
  "scan_frac cs =
     (case cs of
        [] \<Rightarrow> Some ([], cs)
      | c # r \<Rightarrow>
          if c = 0x2E then
            (if takeWhile is_digit r = [] then None
             else Some (takeWhile is_digit r, dropWhile is_digit r))
          else Some ([], cs))"

text \<open>The exponent: nothing, or \<^verbatim>\<open>e\<close> or \<^verbatim>\<open>E\<close>, an optional sign and at least one digit.\<close>

definition scan_exp :: "jstext \<Rightarrow> (int \<times> jstext) option" where
  "scan_exp cs =
     (case cs of
        [] \<Rightarrow> Some (0, cs)
      | c # r \<Rightarrow>
          if c = 0x65 \<or> c = 0x45 then
            (let negative = (case r of [] \<Rightarrow> False | s # r1 \<Rightarrow> s = 0x2D);
                 signed = (case r of [] \<Rightarrow> False | s # r1 \<Rightarrow> s = 0x2D \<or> s = 0x2B);
                 r2 = (if signed then tl r else r);
                 exps = takeWhile is_digit r2
             in if exps = [] then None
                else Some (if negative then - int (digits_value exps) else int (digits_value exps),
                           dropWhile is_digit r2))
          else Some (0, cs))"

definition scan_number :: "jstext \<Rightarrow> (token \<times> jstext) option" where
  "scan_number cs =
     (case scan_int cs of
        None \<Rightarrow> None
      | Some (negative, ints, r1) \<Rightarrow>
          (case scan_frac r1 of
             None \<Rightarrow> None
           | Some (fracs, r2) \<Rightarrow>
               (case scan_exp r2 of
                  None \<Rightarrow> None
                | Some (exponent, r3) \<Rightarrow>
                    Some (TNumber
                            (if negative then - int (digits_value (ints @ fracs))
                             else int (digits_value (ints @ fracs)))
                            (exponent - int (length fracs)),
                          r3))))"

lemma scan_string_shorter: "scan_string acc cs = Some (s, rest) \<Longrightarrow> length rest < length cs"
proof (induction acc cs rule: scan_string.induct)
  case (1 acc)
  then show ?case by simp
next
  case (2 acc c cs)
  show ?case
  proof (cases "c = 0x22")
    case True
    with "2.prems" show ?thesis by simp
  next
    case quote: False
    show ?thesis
    proof (cases "c = 0x5C")
      case True
      with quote "2.prems" obtain u r where esc: "scan_escape cs = Some (u, r)"
        and rec: "scan_string (u # acc) r = Some (s, rest)"
        by (auto split: option.splits)
      from "2.IH"(1) [OF quote True esc refl rec] scan_escape_shorter [OF esc]
      show ?thesis by simp
    next
      case False
      with quote "2.prems" have ctl: "\<not> c < 0x20" and rec: "scan_string (c # acc) cs = Some (s, rest)"
        by (auto split: if_splits)
      from "2.IH"(2) [OF quote False ctl rec] show ?thesis by simp
    qed
  qed
qed

lemma dropWhile_shorter: "takeWhile P xs \<noteq> [] \<Longrightarrow> length (dropWhile P xs) < length xs"
  by (cases xs) (auto simp: le_imp_less_Suc length_dropWhile_le split: if_splits)

lemma scan_int_shorter: "scan_int cs = Some (n, ints, rest) \<Longrightarrow> length rest < length cs"
proof -
  assume a: "scan_int cs = Some (n, ints, rest)"
  let ?r0 = "if (case cs of [] \<Rightarrow> False | c # r \<Rightarrow> c = 0x2D) then tl cs else cs"
  from a have ne: "takeWhile is_digit ?r0 \<noteq> []" and r: "rest = dropWhile is_digit ?r0"
    by (auto simp: scan_int_def Let_def split: if_splits)
  have "length ?r0 \<le> length cs" by simp
  with dropWhile_shorter [OF ne] r show ?thesis by simp
qed

lemma scan_frac_shorter: "scan_frac cs = Some (fracs, rest) \<Longrightarrow> length rest \<le> length cs"
  using length_dropWhile_le [of is_digit "tl cs"]
  by (cases cs) (auto simp: scan_frac_def le_SucI split: if_splits)

lemma scan_exp_shorter: "scan_exp cs = Some (e, rest) \<Longrightarrow> length rest \<le> length cs"
proof (cases cs)
  case Nil
  then show "scan_exp cs = Some (e, rest) \<Longrightarrow> length rest \<le> length cs"
    by (simp add: scan_exp_def)
next
  case (Cons c r)
  assume a: "scan_exp cs = Some (e, rest)"
  let ?r2 = "if (case r of [] \<Rightarrow> False | s # r1 \<Rightarrow> s = 0x2D \<or> s = 0x2B) then tl r else r"
  have le: "length (dropWhile is_digit ?r2) \<le> length r"
    using length_dropWhile_le [of is_digit ?r2] by (auto simp: le_diff_conv)
  from a Cons have "rest = cs \<or> rest = dropWhile is_digit ?r2"
    by (auto simp: scan_exp_def Let_def split: if_splits)
  with le Cons show ?thesis by auto
qed

lemma scan_number_shorter: "scan_number cs = Some (t, rest) \<Longrightarrow> length rest < length cs"
  by (fastforce simp: scan_number_def split: option.splits
      dest: scan_int_shorter scan_frac_shorter scan_exp_shorter)

function tokenize :: "jstext \<Rightarrow> token list option" where
  "tokenize [] = Some []"
| "tokenize (c # cs) =
     (if c = 0x20 \<or> c = 0x09 \<or> c = 0x0A \<or> c = 0x0D then tokenize cs
      else if c = 0x7B then map_option ((#) LBrace) (tokenize cs)
      else if c = 0x7D then map_option ((#) RBrace) (tokenize cs)
      else if c = 0x5B then map_option ((#) LBracket) (tokenize cs)
      else if c = 0x5D then map_option ((#) RBracket) (tokenize cs)
      else if c = 0x3A then map_option ((#) Colon) (tokenize cs)
      else if c = 0x2C then map_option ((#) Comma) (tokenize cs)
      else if c = 0x22 then
        (case scan_string [] cs of
           None \<Rightarrow> None
         | Some (s, rest) \<Rightarrow> map_option ((#) (TString s)) (tokenize rest))
      else if c = 0x2D \<or> is_digit c then
        (case scan_number (c # cs) of
           None \<Rightarrow> None
         | Some (t, rest) \<Rightarrow> map_option ((#) t) (tokenize rest))
      else if startsWith (c # cs) (str ''true'') then map_option ((#) TTrue) (tokenize (drop 3 cs))
      else if startsWith (c # cs) (str ''false'') then map_option ((#) TFalse) (tokenize (drop 4 cs))
      else if startsWith (c # cs) (str ''null'') then map_option ((#) TNull) (tokenize (drop 3 cs))
      else None)"
  by pat_completeness auto
termination
  by (relation "measure length")
    (auto dest: scan_string_shorter scan_number_shorter)

datatype frame = InArray "json list" | InObject "(jstext \<times> json) list" "jstext option"

datatype parser_state =
    ExpectValue | ArrayStart | ObjectStart | ExpectKey | ExpectColon
  | AfterElement | AfterMember | Done json

fun assign_member :: "jstext \<Rightarrow> json \<Rightarrow> (jstext \<times> json) list \<Rightarrow> (jstext \<times> json) list" where
  "assign_member k v [] = [(k, v)]"
| "assign_member k v (p # ps) = (if fst p = k then (k, v) # ps else p # assign_member k v ps)"

fun complete :: "json \<Rightarrow> frame list \<Rightarrow> (frame list \<times> parser_state) option" where
  "complete v [] = Some ([], Done v)"
| "complete v (InArray acc # fs) = Some (InArray (v # acc) # fs, AfterElement)"
| "complete v (InObject ms (Some k) # fs) = Some (InObject (assign_member k v ms) None # fs, AfterMember)"
| "complete v (InObject ms None # fs) = None"

fun scalar :: "token \<Rightarrow> json option" where
  "scalar (TString s) = Some (JString s)"
| "scalar (TNumber m e) = Some (JNumber m e)"
| "scalar TTrue = Some (JBool True)"
| "scalar TFalse = Some (JBool False)"
| "scalar TNull = Some JNull"
| "scalar t = None"

fun value_token :: "token \<Rightarrow> frame list \<Rightarrow> (frame list \<times> parser_state) option" where
  "value_token LBracket fs = Some (InArray [] # fs, ArrayStart)"
| "value_token LBrace fs = Some (InObject [] None # fs, ObjectStart)"
| "value_token t fs = (case scalar t of None \<Rightarrow> None | Some v \<Rightarrow> complete v fs)"

fun close_array :: "frame list \<Rightarrow> (frame list \<times> parser_state) option" where
  "close_array (InArray acc # fs) = complete (JArray (rev acc)) fs"
| "close_array fs = None"

fun close_object :: "frame list \<Rightarrow> (frame list \<times> parser_state) option" where
  "close_object (InObject ms None # fs) = complete (JObject ms) fs"
| "close_object fs = None"

fun set_key :: "jstext \<Rightarrow> frame list \<Rightarrow> (frame list \<times> parser_state) option" where
  "set_key k (InObject ms None # fs) = Some (InObject ms (Some k) # fs, ExpectColon)"
| "set_key k fs = None"

fun step :: "parser_state \<Rightarrow> token \<Rightarrow> frame list \<Rightarrow> (frame list \<times> parser_state) option" where
  "step ExpectValue t fs = value_token t fs"
| "step ArrayStart t fs = (if t = RBracket then close_array fs else value_token t fs)"
| "step ObjectStart t fs =
     (case t of RBrace \<Rightarrow> close_object fs | TString k \<Rightarrow> set_key k fs | _ \<Rightarrow> None)"
| "step ExpectKey t fs = (case t of TString k \<Rightarrow> set_key k fs | _ \<Rightarrow> None)"
| "step ExpectColon t fs = (if t = Colon then Some (fs, ExpectValue) else None)"
| "step AfterElement t fs =
     (case t of Comma \<Rightarrow> Some (fs, ExpectValue) | RBracket \<Rightarrow> close_array fs | _ \<Rightarrow> None)"
| "step AfterMember t fs =
     (case t of Comma \<Rightarrow> Some (fs, ExpectKey) | RBrace \<Rightarrow> close_object fs | _ \<Rightarrow> None)"
| "step (Done v) t fs = None"

fun parse_tokens :: "frame list \<Rightarrow> parser_state \<Rightarrow> token list \<Rightarrow> json option" where
  "parse_tokens fs (Done v) [] = Some v"
| "parse_tokens fs st [] = None"
| "parse_tokens fs st (t # ts) =
     (case step st t fs of None \<Rightarrow> None | Some (fs1, st1) \<Rightarrow> parse_tokens fs1 st1 ts)"

definition JSON_parse :: "jstext \<Rightarrow> json option" where
  "JSON_parse text = (case tokenize text of None \<Rightarrow> None | Some ts \<Rightarrow> parse_tokens [] ExpectValue ts)"

section \<open>The URL parser\<close>

text \<open>
  The platform's \<^verbatim>\<open>new URL(input)\<close>, after the basic URL parser of the URL Standard run
  without a base URL. A string is a list of code units below 256. The result
  \<open>Inl InvalidURL\<close> is the \<^verbatim>\<open>TypeError\<close> the constructor throws. Three parts of the
  Standard are left out, and an input that needs one of them gives \<open>Inl Unmodelled\<close>:
  the \<^verbatim>\<open>file\<close> scheme, hosts in square brackets (IPv6), and domain names that need
  Unicode processing (a code unit above 127 after percent-decoding, or a label starting
  with \<^verbatim>\<open>xn--\<close>).
\<close>

record url =
  protocol :: string
  username :: string
  password :: string
  hostname :: string
  port :: string
  pathname :: string
  search :: string
  hash :: string

definition code :: "char \<Rightarrow> nat" where
  "code c = of_char c"

definition is_ascii_digit :: "char \<Rightarrow> bool" where
  "is_ascii_digit c = (c \<in> set ''0123456789'')"

definition is_ascii_upper :: "char \<Rightarrow> bool" where
  "is_ascii_upper c = (c \<in> set ''ABCDEFGHIJKLMNOPQRSTUVWXYZ'')"

definition is_ascii_lower :: "char \<Rightarrow> bool" where
  "is_ascii_lower c = (c \<in> set ''abcdefghijklmnopqrstuvwxyz'')"

definition is_ascii_alpha :: "char \<Rightarrow> bool" where
  "is_ascii_alpha c = (is_ascii_upper c \<or> is_ascii_lower c)"

definition to_lower :: "char \<Rightarrow> char" where
  "to_lower c =
     (case map_of (zip ''ABCDEFGHIJKLMNOPQRSTUVWXYZ'' ''abcdefghijklmnopqrstuvwxyz'') c of
        None \<Rightarrow> c
      | Some l \<Rightarrow> l)"

definition hex_digit_value :: "char \<Rightarrow> nat option" where
  "hex_digit_value c =
     map_of (zip ''0123456789abcdefABCDEF''
               [0, 1, 2, 3, 4, 5, 6, 7, 8, 9, 10, 11, 12, 13, 14, 15, 10, 11, 12, 13, 14, 15]) c"

definition digit_value :: "char \<Rightarrow> nat" where
  "digit_value c = (case hex_digit_value c of None \<Rightarrow> 0 | Some d \<Rightarrow> d)"

definition number_of :: "nat \<Rightarrow> string \<Rightarrow> nat" where
  "number_of radix ds = foldl (\<lambda>n d. radix * n + digit_value d) 0 ds"

subsection \<open>Percent-encoding\<close>

definition upper_hex :: "nat \<Rightarrow> char" where
  "upper_hex d = ''0123456789ABCDEF'' ! (d mod 16)"

definition percent_byte :: "nat \<Rightarrow> string" where
  "percent_byte b = [CHR ''%'', upper_hex (b div 16), upper_hex (b mod 16)]"

text \<open>The UTF-8 bytes of a code unit below 256.\<close>

definition utf8_bytes :: "char \<Rightarrow> nat list" where
  "utf8_bytes c = (if code c < 0x80 then [code c] else [0xC0 + code c div 0x40, 0x80 + code c mod 0x40])"

definition c0_control_set :: "char \<Rightarrow> bool" where
  "c0_control_set c = (code c < 0x20 \<or> 0x7E < code c)"

definition fragment_set :: "char \<Rightarrow> bool" where
  "fragment_set c = (c0_control_set c \<or> c \<in> set [CHR '' '', CHR 0x22, CHR ''<'', CHR ''>'', CHR 0x60])"

definition query_set :: "char \<Rightarrow> bool" where
  "query_set c = (c0_control_set c \<or> c \<in> set [CHR '' '', CHR 0x22, CHR ''#'', CHR ''<'', CHR ''>''])"

definition special_query_set :: "char \<Rightarrow> bool" where
  "special_query_set c = (query_set c \<or> c = CHR 0x27)"

definition path_set :: "char \<Rightarrow> bool" where
  "path_set c = (query_set c \<or> c \<in> set [CHR ''?'', CHR ''^'', CHR 0x60, CHR ''{'', CHR ''}''])"

definition userinfo_set :: "char \<Rightarrow> bool" where
  "userinfo_set c =
     (path_set c \<or> c \<in> set [CHR ''/'', CHR '':'', CHR '';'', CHR ''='', CHR ''@'', CHR ''['',
                                CHR 0x5C, CHR '']'', CHR ''|''])"

definition percent_encode :: "(char \<Rightarrow> bool) \<Rightarrow> string \<Rightarrow> string" where
  "percent_encode encode_set s =
     concat (map (\<lambda>c. if encode_set c then concat (map percent_byte (utf8_bytes c)) else [c]) s)"

text \<open>Percent-decoding, to bytes (kept as code units).\<close>

fun percent_decode :: "string \<Rightarrow> string" where
  "percent_decode (c # h1 # h2 # cs) =
     (if c = CHR ''%'' \<and> hex_digit_value h1 \<noteq> None \<and> hex_digit_value h2 \<noteq> None
      then char_of (16 * digit_value h1 + digit_value h2) # percent_decode cs
      else c # percent_decode (h1 # h2 # cs))"
| "percent_decode (c # cs) = c # percent_decode cs"
| "percent_decode [] = []"

subsection \<open>Hosts\<close>

definition forbidden_host_code_point :: "char \<Rightarrow> bool" where
  "forbidden_host_code_point c =
     (c \<in> set [CHR 0x00, CHR 0x09, CHR 0x0A, CHR 0x0D, CHR '' '', CHR ''#'', CHR ''/'', CHR '':'',
                CHR ''<'', CHR ''>'', CHR ''?'', CHR ''@'', CHR ''['', CHR 0x5C, CHR '']'',
                CHR ''^'', CHR ''|''])"

definition forbidden_domain_code_point :: "char \<Rightarrow> bool" where
  "forbidden_domain_code_point c =
     (forbidden_host_code_point c \<or> code c < 0x20 \<or> c = CHR ''%'' \<or> c = CHR 0x7F)"

text \<open>
  The IPv4 number parser: \<open>None\<close> is failure. A number is decimal, octal after a leading
  \<^verbatim>\<open>0\<close>, hexadecimal after \<^verbatim>\<open>0x\<close>.
\<close>

definition radix_digit :: "nat \<Rightarrow> char \<Rightarrow> bool" where
  "radix_digit radix c = (case hex_digit_value c of None \<Rightarrow> False | Some d \<Rightarrow> d < radix)"

definition ipv4_number :: "string \<Rightarrow> nat option" where
  "ipv4_number s =
     (if s = [] then None
      else
        let hex = (2 \<le> length s \<and> (take 2 s = ''0x'' \<or> take 2 s = ''0X''));
            oct = (\<not> hex \<and> 2 \<le> length s \<and> take 1 s = ''0'');
            radix = (if hex then 16 else if oct then 8 else 10);
            digits = (if hex then drop 2 s else if oct then drop 1 s else s)
        in if list_all (radix_digit radix) digits then Some (number_of radix digits) else None)"

definition ends_in_a_number :: "string \<Rightarrow> bool" where
  "ends_in_a_number s =
     (let parts = split (CHR ''.'') s in
      if last parts = [] \<and> length parts = 1 then False
      else
        let l = (if last parts = [] then last (butlast parts) else last parts)
        in (l \<noteq> [] \<and> list_all is_ascii_digit l) \<or> ipv4_number l \<noteq> None)"

definition ipv4_serialize :: "nat \<Rightarrow> string" where
  "ipv4_serialize n =
     show_nat (n div 0x1000000 mod 0x100) @ ''.'' @ show_nat (n div 0x10000 mod 0x100) @ ''.'' @
     show_nat (n div 0x100 mod 0x100) @ ''.'' @ show_nat (n mod 0x100)"

fun ipv4_sum :: "nat \<Rightarrow> nat list \<Rightarrow> nat" where
  "ipv4_sum k [] = 0"
| "ipv4_sum k (n # ns) = n * 256 ^ k + ipv4_sum (k - 1) ns"

definition ipv4_parse :: "string \<Rightarrow> nat option" where
  "ipv4_parse s =
     (let parts0 = split (CHR ''.'') s;
          parts = (if last parts0 = [] \<and> 1 < length parts0 then butlast parts0 else parts0);
          numbers = map (\<lambda>p. case ipv4_number p of None \<Rightarrow> 0 | Some n \<Rightarrow> n) parts
      in if 4 < length parts then None
         else if \<not> list_all (\<lambda>p. ipv4_number p \<noteq> None) parts then None
         else if \<not> list_all (\<lambda>n. n \<le> 255) (butlast numbers) then None
         else if 256 ^ (5 - length numbers) \<le> last numbers then None
         else Some (last numbers + ipv4_sum 3 (butlast numbers)))"

text \<open>A label of a domain starts with \<^verbatim>\<open>xn--\<close>.\<close>

definition has_punycode_label :: "string \<Rightarrow> bool" where
  "has_punycode_label s = list_ex (\<lambda>l. startsWith l ''xn--'') (split (CHR ''.'') s)"

text \<open>
  The host parser for a special scheme: percent-decode, lower the case (all that domain
  to ASCII does to an ASCII name without \<^verbatim>\<open>xn--\<close> labels), refuse forbidden code points,
  and read a name that ends in a number as an IPv4 address.
\<close>

definition parse_domain :: "string \<Rightarrow> error + string" where
  "parse_domain input =
     (let decoded = percent_decode input;
          domain = map to_lower decoded
      in if list_ex (\<lambda>b. 0x80 \<le> code b) decoded then Inl Unmodelled
         else if has_punycode_label domain then Inl Unmodelled
         else if domain = [] then Inl InvalidURL
         else if list_ex forbidden_domain_code_point domain then Inl InvalidURL
         else if ends_in_a_number domain then
           (case ipv4_parse domain of None \<Rightarrow> Inl InvalidURL | Some n \<Rightarrow> Inr (ipv4_serialize n))
         else Inr domain)"

definition parse_opaque_host :: "string \<Rightarrow> error + string" where
  "parse_opaque_host input =
     (if list_ex forbidden_host_code_point input then Inl InvalidURL
      else Inr (percent_encode c0_control_set input))"

definition parse_host :: "bool \<Rightarrow> string \<Rightarrow> error + string" where
  "parse_host special input =
     (if startsWith input ''['' then
        (if endsWith input '']'' then Inl Unmodelled else Inl InvalidURL)
      else if special then parse_domain input
      else parse_opaque_host input)"

subsection \<open>Schemes and ports\<close>

definition is_scheme_char :: "char \<Rightarrow> bool" where
  "is_scheme_char c = (is_ascii_alpha c \<or> is_ascii_digit c \<or> c \<in> set ''+-.'')"

definition default_port :: "string \<Rightarrow> nat option" where
  "default_port scheme =
     map_of [(''ftp'', 21), (''http'', 80), (''https'', 443), (''ws'', 80), (''wss'', 443)] scheme"

definition is_special :: "string \<Rightarrow> bool" where
  "is_special scheme = (scheme = ''file'' \<or> default_port scheme \<noteq> None)"

text \<open>
  The scheme state: letters, digits, \<^verbatim>\<open>+\<close>, \<^verbatim>\<open>-\<close> and \<^verbatim>\<open>.\<close> after a first letter, up to
  a colon; the scheme in lower case and the rest of the input. Without a base URL anything
  else is a failure.
\<close>

definition parse_scheme :: "string \<Rightarrow> (string \<times> string) option" where
  "parse_scheme input =
     (case input of
        [] \<Rightarrow> None
      | c # cs \<Rightarrow>
          if is_ascii_alpha c then
            (case dropWhile is_scheme_char input of
               [] \<Rightarrow> None
             | d # rest \<Rightarrow>
                 if d = CHR '':'' then Some (map to_lower (takeWhile is_scheme_char input), rest)
                 else None)
          else None)"

text \<open>
  The port state on the text between the colon and the end of the authority: digits only,
  at most 65535, and no port when it is the default of the scheme.
\<close>

definition parse_port :: "string \<Rightarrow> string \<Rightarrow> error + string" where
  "parse_port scheme buffer =
     (if \<not> list_all is_ascii_digit buffer then Inl InvalidURL
      else if buffer = [] then Inr []
      else if 65535 < number_of 10 buffer then Inl InvalidURL
      else if default_port scheme = Some (number_of 10 buffer) then Inr []
      else Inr (show_nat (number_of 10 buffer)))"

subsection \<open>Paths\<close>

definition is_single_dot :: "string \<Rightarrow> bool" where
  "is_single_dot seg = (map to_lower seg \<in> set [''.'', ''%2e''])"

definition is_double_dot :: "string \<Rightarrow> bool" where
  "is_double_dot seg = (map to_lower seg \<in> set [''..'', ''.%2e'', ''%2e.'', ''%2e%2e''])"

text \<open>Splitting at \<^verbatim>\<open>/\<close>, and for a special scheme at the backslash as well.\<close>

fun split_path :: "bool \<Rightarrow> string \<Rightarrow> string list" where
  "split_path special [] = [[]]"
| "split_path special (c # cs) =
     (if c = CHR ''/'' \<or> (special \<and> c = CHR 0x5C) then [] # split_path special cs
      else (case split_path special cs of [] \<Rightarrow> [[c]] | seg # segs \<Rightarrow> (c # seg) # segs))"

text \<open>
  The path state, segment by segment: a double-dot segment removes the last segment, a
  single-dot segment is dropped, and either of them leaves an empty segment when it ends
  the path.
\<close>

fun path_segments :: "string list \<Rightarrow> string list \<Rightarrow> string list" where
  "path_segments path [] = path"
| "path_segments path (seg # segs) =
     (let buffer = percent_encode path_set seg in
      if is_double_dot buffer then
        path_segments (if segs = [] then butlast path @ [[]] else butlast path) segs
      else if is_single_dot buffer then
        path_segments (if segs = [] then path @ [[]] else path) segs
      else path_segments (path @ [buffer]) segs)"

definition serialize_path :: "string list \<Rightarrow> string" where
  "serialize_path path = concat (map (\<lambda>seg. CHR ''/'' # seg) path)"

definition is_path_end :: "char \<Rightarrow> bool" where
  "is_path_end c = (c = CHR ''?'' \<or> c = CHR ''#'')"

text \<open>
  The path start state and the path state on what follows the authority: the pathname.
  A special URL always has a path; another URL has none when nothing, a query or a
  fragment follows.
\<close>

definition parse_path :: "bool \<Rightarrow> string \<Rightarrow> string" where
  "parse_path special rest =
     (let body = takeWhile (\<lambda>c. \<not> is_path_end c) rest;
          segs = (case body of
                    [] \<Rightarrow> (if special then [[]] else [])
                  | c # cs \<Rightarrow>
                      if c = CHR ''/'' \<or> (special \<and> c = CHR 0x5C) then split_path special cs
                      else split_path special body)
      in serialize_path (path_segments [] segs))"

text \<open>
  The opaque path state: the path is one string, with a space kept unless the query or
  the fragment follows it.
\<close>

fun opaque_path :: "string \<Rightarrow> string" where
  "opaque_path [] = []"
| "opaque_path (c # cs) =
     (if is_path_end c then []
      else if c = CHR '' '' then
        (case cs of
           [] \<Rightarrow> '' ''
         | d # ds \<Rightarrow> if is_path_end d then ''%20'' else CHR '' '' # opaque_path cs)
      else percent_encode c0_control_set [c] @ opaque_path cs)"

text \<open>The query and the fragment of what follows the path, as the getters give them.\<close>

definition parse_search :: "bool \<Rightarrow> string \<Rightarrow> string" where
  "parse_search special rest =
     (case dropWhile (\<lambda>c. \<not> is_path_end c) rest of
        [] \<Rightarrow> []
      | c # cs \<Rightarrow>
          if c = CHR ''?'' then
            (let query = percent_encode (if special then special_query_set else query_set)
                           (takeWhile (\<lambda>c. c \<noteq> CHR ''#'') cs)
             in if query = [] then [] else CHR ''?'' # query)
          else [])"

definition parse_hash :: "string \<Rightarrow> string" where
  "parse_hash rest =
     (case dropWhile (\<lambda>c. c \<noteq> CHR ''#'') rest of
        [] \<Rightarrow> []
      | c # cs \<Rightarrow> if cs = [] then [] else CHR ''#'' # percent_encode fragment_set cs)"

subsection \<open>Authority\<close>

definition is_authority_end :: "bool \<Rightarrow> char \<Rightarrow> bool" where
  "is_authority_end special c =
     (c = CHR ''/'' \<or> c = CHR ''?'' \<or> c = CHR ''#'' \<or> (special \<and> c = CHR 0x5C))"

text \<open>The text after the last \<^verbatim>\<open>@\<close> and, when there is one, the text before it.\<close>

fun split_userinfo :: "string \<Rightarrow> string option \<times> string" where
  "split_userinfo [] = (None, [])"
| "split_userinfo (c # cs) =
     (case split_userinfo cs of
        (None, host) \<Rightarrow> if c = CHR ''@'' then (Some [], host) else (None, c # host)
      | (Some info, host) \<Rightarrow> (Some (c # info), host))"

text \<open>The host state: the text before the first colon outside square brackets, and the text after it.\<close>

fun split_port :: "bool \<Rightarrow> string \<Rightarrow> string \<times> string option" where
  "split_port inside [] = ([], None)"
| "split_port inside (c # cs) =
     (if c = CHR '':'' \<and> \<not> inside then ([], Some cs)
      else
        let r = split_port (if c = CHR ''['' then True else if c = CHR '']'' then False else inside) cs
        in (c # fst r, snd r))"

definition encode_at :: "string \<Rightarrow> string" where
  "encode_at s = concat (map (\<lambda>c. if c = CHR ''@'' then ''%40'' else [c]) s)"

text \<open>
  The authority state, the host state and the port state for a scheme and the text after
  its slashes; then the path, the query and the fragment.
\<close>

definition parse_authority :: "string \<Rightarrow> string \<Rightarrow> error + url" where
  "parse_authority scheme input =
     (let special = is_special scheme;
          authority = takeWhile (\<lambda>c. \<not> is_authority_end special c) input;
          rest = dropWhile (\<lambda>c. \<not> is_authority_end special c) input;
          userinfo = fst (split_userinfo authority);
          hostport = snd (split_userinfo authority);
          name = fst (split_port False hostport);
          port_text = snd (split_port False hostport);
          credentials = (case userinfo of None \<Rightarrow> [] | Some info \<Rightarrow> encode_at info)
      in if userinfo \<noteq> None \<and> hostport = [] then Inl InvalidURL
         else if port_text \<noteq> None \<and> name = [] then Inl InvalidURL
         else if special \<and> name = [] then Inl InvalidURL
         else
           (case parse_host special name of
              Inl e \<Rightarrow> Inl e
            | Inr host \<Rightarrow>
                (case parse_port scheme (case port_text of None \<Rightarrow> [] | Some p \<Rightarrow> p) of
                   Inl e \<Rightarrow> Inl e
                 | Inr port_number \<Rightarrow>
                     Inr \<lparr> protocol = scheme @ '':'',
                           username = percent_encode userinfo_set
                                        (takeWhile (\<lambda>c. c \<noteq> CHR '':'') credentials),
                           password = percent_encode userinfo_set
                                        (drop 1 (dropWhile (\<lambda>c. c \<noteq> CHR '':'') credentials)),
                           hostname = host,
                           port = port_number,
                           pathname = parse_path special rest,
                           search = parse_search special rest,
                           hash = parse_hash rest \<rparr>)))"

subsection \<open>The constructor\<close>

definition is_c0_control_or_space :: "char \<Rightarrow> bool" where
  "is_c0_control_or_space c = (code c \<le> 0x20)"

definition is_tab_or_newline :: "char \<Rightarrow> bool" where
  "is_tab_or_newline c = (c = CHR 0x09 \<or> c = CHR 0x0A \<or> c = CHR 0x0D)"

definition preprocess :: "string \<Rightarrow> string" where
  "preprocess input =
     filter (\<lambda>c. \<not> is_tab_or_newline c)
       (rev (dropWhile is_c0_control_or_space (rev (dropWhile is_c0_control_or_space input))))"

definition is_slash :: "char \<Rightarrow> bool" where
  "is_slash c = (c = CHR ''/'' \<or> c = CHR 0x5C)"

definition new_URL :: "string \<Rightarrow> error + url" where
  "new_URL input =
     (case parse_scheme (preprocess input) of
        None \<Rightarrow> Inl InvalidURL
      | Some (scheme, rest) \<Rightarrow>
          if scheme = ''file'' then Inl Unmodelled
          else if is_special scheme then parse_authority scheme (dropWhile is_slash rest)
          else if startsWith rest ''//'' then parse_authority scheme (drop 2 rest)
          else if startsWith rest ''/'' then
            Inr \<lparr> protocol = scheme @ '':'', username = [], password = [], hostname = [],
                  port = [], pathname = parse_path False rest,
                  search = parse_search False rest, hash = parse_hash rest \<rparr>
          else
            Inr \<lparr> protocol = scheme @ '':'', username = [], password = [], hostname = [],
                  port = [], pathname = opaque_path rest,
                  search = parse_search False rest, hash = parse_hash rest \<rparr>)"

section \<open>formatHost\<close>

text \<open>
  Modelled from the spec: the constants \<^verbatim>\<open>PORTS\<close> and \<^verbatim>\<open>PROTOCOLS\<close> of the missing
  \<^verbatim>\<open>constants\<close> module; the specification gives 443 as the port for \<^verbatim>\<open>https\<close> and 80
  as the port for \<^verbatim>\<open>http\<close>.
\<close>

definition PORTS_HTTPS :: string where
  "PORTS_HTTPS = ''443''"

definition PORTS_HTTP :: string where
  "PORTS_HTTP = ''80''"

definition PROTOCOLS_HTTPS :: string where
  "PROTOCOLS_HTTPS = ''https''"

text \<open>\<^verbatim>\<open>s.slice(0, -1)\<close>.\<close>

definition slice_0_minus_1 :: "string \<Rightarrow> string" where
  "slice_0_minus_1 s = butlast s"

text \<open>
  \<^verbatim>\<open>formatHost\<close>. The constant \<^verbatim>\<open>OLLAMA_LOCAL_URL\<close>, whose value the sources do not
  give, and the constructor \<^verbatim>\<open>URL\<close> of the platform are parameters.
\<close>

definition formatHost :: "string \<Rightarrow> (string \<Rightarrow> error + url) \<Rightarrow> string \<Rightarrow> error + string" where
  "formatHost OLLAMA_LOCAL_URL URL host =
     (if host = [] then Inr OLLAMA_LOCAL_URL
      else
        let isExplicitProtocol0 = includesStr host ''://'';
            host1 = (if startsWith host '':'' then ''http://127.0.0.1'' @ host else host);
            isExplicitProtocol = (if startsWith host '':'' then False else isExplicitProtocol0);
            host2 = (if \<not> isExplicitProtocol then ''http://'' @ host1 else host1)
        in case URL host2 of
             Inl e \<Rightarrow> Inl e
           | Inr url \<Rightarrow>
               let port1 = (if port url = [] then
                              (if \<not> isExplicitProtocol then ''11434''
                               else if protocol url = PROTOCOLS_HTTPS @ '':'' then PORTS_HTTPS
                               else PORTS_HTTP)
                            else port url);
                   formattedHost =
                     protocol url @ ''//'' @ hostname url @ '':'' @ port1 @ pathname url
               in Inr (if endsWith formattedHost ''/'' then slice_0_minus_1 formattedHost
                       else formattedHost))"

text \<open>
  A stand-in for \<^verbatim>\<open>OLLAMA_LOCAL_URL\<close> in the examples; it is returned for the empty host
  only.
\<close>

definition local_endpoint :: string where
  "local_endpoint = ''http://127.0.0.1:11434''"

text \<open>
  The flag \<^verbatim>\<open>isExplicitProtocol\<close> as \<^verbatim>\<open>formatHost\<close> computes it from the host, the
  string it hands to \<^verbatim>\<open>URL\<close>, and the removal of one trailing slash.
\<close>

definition scheme_is_explicit :: "string \<Rightarrow> bool" where
  "scheme_is_explicit host = (includesStr host ''://'' \<and> \<not> startsWith host '':'')"

definition url_input :: "string \<Rightarrow> string" where
  "url_input host =
     (if startsWith host '':'' then ''http://http://127.0.0.1'' @ host
      else if includesStr host ''://'' then host
      else ''http://'' @ host)"

definition strip_slash :: "string \<Rightarrow> string" where
  "strip_slash s = (if endsWith s ''/'' then butlast s else s)"


subsection \<open>Plain host strings\<close>

text \<open>
  The host strings on which resolution is shown to be idempotent: an optional scheme
  \<^verbatim>\<open>http://\<close> or \<^verbatim>\<open>https://\<close>, a host name, an optional colon and port, and a path.
  The host name is made of ASCII code units that a domain may contain, in either case,
  without \<^verbatim>\<open>xn--\<close> labels and not ending in a number. The port is a string of digits, at
  most 65535. The path is a list of segments, each written after a slash, made of code
  units that the path state neither encodes nor splits at, none of them a dot segment,
  and the last two not both empty (the path does not end in two slashes).
\<close>

definition host_char :: "char \<Rightarrow> bool" where
  "host_char c = (code c < 0x80 \<and> \<not> forbidden_domain_code_point c)"

definition plain_host :: "string \<Rightarrow> bool" where
  "plain_host h =
     (h \<noteq> [] \<and> list_all host_char h \<and> \<not> has_punycode_label (map to_lower h) \<and>
      \<not> ends_in_a_number (map to_lower h))"













text \<open>
  The request a call made, read back from the response of the \<open>echo\<close> transport.
\<close>

definition sent_request ::
  "log_entry list \<times> (error + (string \<times> 's request_init) response_scheme) \<Rightarrow> 's request_init option" where
  "sent_request outcome =
     (case snd outcome of Inl e \<Rightarrow> None | Inr r \<Rightarrow> Some (snd (response.more r)))"

text \<open>The bytes of an ASCII string, and its code units.\<close>

definition bytes_of :: "string \<Rightarrow> 8 word list" where
  "bytes_of s = map of_char s"

text \<open>
  The specification's stream \<^verbatim>\<open>{"a":1}\nnot-json\n{"b":2}\n\<close>, delivered in two chunks
  that cut the malformed line.
\<close>

definition ndjson_chunk1 :: "8 word list" where
  "ndjson_chunk1 = bytes_of ''{\"a\":1}'' @ [0x0A] @ bytes_of ''not-''"

definition ndjson_chunk2 :: "8 word list" where
  "ndjson_chunk2 = bytes_of ''json'' @ [0x0A] @ bytes_of ''{\"b\":2}'' @ [0x0A]"

text \<open>
  Two error responses whose JSON \<^verbatim>\<open>error\<close> field has no string conversion: the bodies
  \<^verbatim>\<open>{"error":{"toString":1}}\<close> and \<^verbatim>\<open>{"error":[{"toString":null}]}\<close>.
\<close>

definition unprintable_response :: response where
  "unprintable_response =
     \<lparr> ok = False, status = 404, statusText = ''Not Found'',
       content_type = Some ''application/json'',
       json_body = Inr (Object [(''error'', Object [(''toString'', Number 1)])]),
       text_body = Inr ''{\"error\":{\"toString\":1}}'' \<rparr>"

definition unprintable_list_response :: response where
  "unprintable_list_response =
     \<lparr> ok = False, status = 500, statusText = ''Internal Server Error'',
       content_type = Some ''application/json'',
       json_body = Inr (Object [(''error'', Array [Object [(''toString'', Null)]])]),
       text_body = Inr ''{\"error\":[{\"toString\":null}]}'' \<rparr>"

text \<open>
  The stream \<^verbatim>\<open>{"a":"\<close>U+00E9\<^verbatim>\<open>"}\nnot-json\n{"b":2}\n\<close> in UTF-8, delivered in two chunks
  that cut the two bytes \<^verbatim>\<open>C3 A9\<close> of U+00E9.
\<close>

definition accent_chunk1 :: "8 word list" where
  "accent_chunk1 = bytes_of ''{\"a\":\"'' @ [0xC3]"

definition accent_chunk2 :: "8 word list" where
  "accent_chunk2 =
     [0xA9] @ bytes_of ''\"}'' @ [0x0A] @ bytes_of ''not-json'' @ [0x0A] @ bytes_of ''{\"b\":2}'' @ [0x0A]"

text \<open>The first line of that stream, and what the generator makes of it.\<close>

definition accent_line :: jstext where
  "accent_line = str ''{\"a\":\"'' @ [0xE9] @ str ''\"}''"

definition replaced_line :: jstext where
  "replaced_line = str ''{\"a\":\"'' @ [0xFFFD, 0xFFFD] @ str ''\"}''"

definition not_found_response :: response where
  "not_found_response =
     \<lparr> ok = False, status = 404, statusText = ''Not Found'',
       content_type = Some ''application/json; charset=utf-8'',
       json_body = Inr (Object [(''error'', String ''model not found'')]),
       text_body = Inr ''{\"error\":\"model not found\"}'' \<rparr>"

definition broken_body_response :: response where
  "broken_body_response =
     \<lparr> ok = False, status = 500, statusText = ''Internal Server Error'',
       content_type = Some ''application/json'',
       json_body = Inl BodyReadError,
       text_body = Inl BodyReadError \<rparr>"

definition ok_response :: response where
  "ok_response =
     \<lparr> ok = True, status = 200, statusText = ''OK'',
       content_type = Some ''application/json'',
       json_body = Inr (Object []),
       text_body = Inr ''{}'' \<rparr>"

section \<open>Properties of checkOk\<close>

lemma get_error_field:
  "get_error v = Inr w \<Longrightarrow> w = (case error_field v of None \<Rightarrow> Undefined | Some f \<Rightarrow> f)"
  by (cases v) (auto simp: error_field_def)

lemma get_error_throws: "get_error v = Inl e \<Longrightarrow> error_field v = None"
  by (cases v) (auto simp: error_field_def)

text \<open>
  On a response that is not ok, \<^verbatim>\<open>checkOk\<close> ends in the \<^verbatim>\<open>throw\<close> statement with the
  message of the specification's priority order, whatever became of the body.
\<close>

lemma checkOk_throws:
  assumes nok: "\<not> ok r"
  shows "snd (checkOk r) = Inl (throw_new_ResponseError (spec_message r) (status r))"
proof (cases "is_json_content r")
  case True
  show ?thesis
  proof (cases "json_body r")
    case (Inl e)
    with nok True show ?thesis by (simp add: checkOk_def spec_message_def)
  next
    case (Inr body)
    show ?thesis
    proof (cases "get_error body")
      case (Inl e)
      from get_error_throws [OF Inl] nok True Inr Inl show ?thesis
        by (simp add: checkOk_def spec_message_def)
    next
      case inr: (Inr w)
      from get_error_field [OF inr] nok True Inr inr show ?thesis
        by (auto simp: checkOk_def spec_message_def split: option.splits)
    qed
  qed
next
  case False
  with nok show ?thesis
    by (auto simp: checkOk_def spec_message_def split: sum.splits)
qed

text \<open>The derived message is never \<^verbatim>\<open>undefined\<close>: a field that is takes the default.\<close>

lemma spec_message_defined: "spec_message r \<noteq> Undefined"
  by (auto simp: spec_message_def split: sum.splits option.splits)

text \<open>A string conversion fails with a \<^verbatim>\<open>TypeError\<close>, or outside the model.\<close>

lemma ToString_failure:
  "ToString v = Inl e \<Longrightarrow> e = TypeError \<or> e = Unmodelled"
  "element_strings vs = Inl e \<Longrightarrow> e = TypeError \<or> e = Unmodelled"
  by (induction v and vs rule: ToString_element_strings.induct)
    (auto split: if_splits sum.splits)

lemma show_nat_404: "show_nat 404 = ''404''"
  by (simp add: show_nat.simps digit_char_def)

lemma show_nat_500: "show_nat 500 = ''500''"
  by (simp add: show_nat.simps digit_char_def)

lemma spec_message_examples:
  "spec_message not_found_response = String ''model not found''"
  "spec_message broken_body_response = String ''Error 500: Internal Server Error''"
  "spec_message unprintable_response = Object [(''toString'', Number 1)]"
  "spec_message unprintable_list_response = Array [Object [(''toString'', Null)]]"
  by (simp_all add: spec_message_def not_found_response_def broken_body_response_def
      unprintable_response_def unprintable_list_response_def is_json_content_def
      error_field_def default_message_def show_nat_500)

text \<open>
  C4, as the claim states it, fails: for the error body \<^verbatim>\<open>{"error":{"toString":1}}\<close>
  the constructor of \<^verbatim>\<open>ResponseError\<close> cannot convert the message to a string, and
  what leaves \<^verbatim>\<open>checkOk\<close> is a \<^verbatim>\<open>TypeError\<close>, not a \<^verbatim>\<open>ResponseError\<close>.
\<close>

theorem checkOk_throws_TypeError:
  "\<not> ok unprintable_response \<and> checkOk unprintable_response = ([], Inl TypeError)"
  by (simp add: checkOk_def unprintable_response_def is_json_content_def
      throw_new_ResponseError_def)

text \<open>
  C4, amended. \<^verbatim>\<open>checkOk\<close> returns normally exactly when the response's \<^verbatim>\<open>ok\<close> flag is
  set, and then it has written nothing and read no body. Otherwise, whenever the derived
  message has a string conversion, it throws a \<^verbatim>\<open>ResponseError\<close> whose \<^verbatim>\<open>status_code\<close> is
  the response's status. Whatever it throws is such a \<^verbatim>\<open>ResponseError\<close> or the failure
  of that one string conversion; a failure of reading or parsing the body never leaves
  the function.
\<close>

theorem checkOk_validates:
  "(snd (checkOk r) = Inr () \<longleftrightarrow> ok r) \<and>
   (ok r \<longrightarrow> checkOk r = ([], Inr ())) \<and>
   (\<not> ok r \<longrightarrow>
      (\<forall>m. ToString (spec_message r) = Inr m \<longrightarrow>
         snd (checkOk r) = Inl (ResponseError m (spec_message r) (status r)))) \<and>
   (\<forall>e. snd (checkOk r) = Inl e \<longrightarrow>
      (\<exists>m v. e = ResponseError m v (status r)) \<or> ToString (spec_message r) = Inl e) \<and>
   snd (checkOk r) \<noteq> Inl BodyReadError"
proof (cases "ok r")
  case True
  then show ?thesis by (simp add: checkOk_def)
next
  case False
  note thrown = checkOk_throws [OF False]
  show ?thesis
  proof (cases "ToString (spec_message r)")
    case (Inl e)
    with ToString_failure(1) [OF Inl] thrown False show ?thesis
      by (auto simp: throw_new_ResponseError_def spec_message_defined)
  next
    case (Inr m)
    with thrown False show ?thesis
      by (simp add: throw_new_ResponseError_def spec_message_defined)
  qed
qed

theorem checkOk_validates_witness:
  "checkOk ok_response = ([], Inr ()) \<and>
   snd (checkOk broken_body_response) =
     Inl (ResponseError ''Error 500: Internal Server Error''
            (String ''Error 500: Internal Server Error'') 500) \<and>
   snd (checkOk not_found_response) =
     Inl (ResponseError ''model not found'' (String ''model not found'') 404)"
  using checkOk_validates [of ok_response] checkOk_validates [of broken_body_response]
    checkOk_validates [of not_found_response]
  by (simp add: spec_message_examples)
    (simp add: ok_response_def broken_body_response_def not_found_response_def)

text \<open>
  C5, as the claim states it, fails: the body \<^verbatim>\<open>{"error":[{"toString":null}]}\<close> parses,
  its \<^verbatim>\<open>error\<close> field is present and not empty, and yet no error with that field as its
  message is thrown: the string conversion in the constructor throws a \<^verbatim>\<open>TypeError\<close>.
\<close>

theorem checkOk_message_TypeError:
  "\<not> ok unprintable_list_response \<and> is_json_content unprintable_list_response \<and>
   json_body unprintable_list_response =
     Inr (Object [(''error'', Array [Object [(''toString'', Null)]])]) \<and>
   error_field (Object [(''error'', Array [Object [(''toString'', Null)]])]) =
     Some (Array [Object [(''toString'', Null)]]) \<and>
   truthy (Array [Object [(''toString'', Null)]]) \<and>
   snd (checkOk unprintable_list_response) = Inl TypeError"
  by (simp add: checkOk_def unprintable_list_response_def is_json_content_def error_field_def
      throw_new_ResponseError_def)

text \<open>
  C5, amended. On a response that is not ok, whenever the value the specification's
  priority order derives has a string conversion, the thrown \<^verbatim>\<open>ResponseError\<close> carries
  that value as its \<^verbatim>\<open>error\<close>, the conversion as its message and the response's status;
  for a value that is a string (the default, a string \<^verbatim>\<open>error\<close> field, the body text) the
  message is that string.
\<close>

theorem checkOk_message:
  assumes "\<not> ok r" and "ToString (spec_message r) = Inr m"
  shows "snd (checkOk r) = Inl (ResponseError m (spec_message r) (status r)) \<and>
         (\<forall>s. spec_message r = String s \<longrightarrow> m = s)"
  using checkOk_throws [OF assms(1)] assms(2)
  by (auto simp: throw_new_ResponseError_def spec_message_defined)

theorem checkOk_message_witness:
  "\<not> ok not_found_response \<and>
   ToString (spec_message not_found_response) = Inr ''model not found'' \<and>
   snd (checkOk not_found_response) =
     Inl (ResponseError ''model not found'' (String ''model not found'') 404) \<and>
   snd (checkOk broken_body_response) =
     Inl (ResponseError ''Error 500: Internal Server Error''
            (String ''Error 500: Internal Server Error'') 500)"
proof -
  have n1: "\<not> ok not_found_response" by (simp add: not_found_response_def)
  have n2: "\<not> ok broken_body_response" by (simp add: broken_body_response_def)
  have t1: "ToString (spec_message not_found_response) = Inr ''model not found''"
    by (simp add: spec_message_examples)
  have t2: "ToString (spec_message broken_body_response) = Inr ''Error 500: Internal Server Error''"
    by (simp add: spec_message_examples)
  from checkOk_message [OF n1 t1] checkOk_message [OF n2 t2] n1 t1 show ?thesis
    by (simp add: spec_message_examples)
      (simp add: not_found_response_def broken_body_response_def)
qed

section \<open>Properties of the request wrappers\<close>

lemma validated_echo: "validated (echo url req) = ([], echo url req)"
  by (simp add: validated_def echo_def checkOk_def)

lemma sent_request_echo: "sent_request (validated (echo url req)) = Some req"
  by (simp add: validated_echo sent_request_def) (simp add: echo_def)

lemma checked_is_validated:
  "(case outcome of
      Inl e \<Rightarrow> ([], Inl e)
    | Inr response \<Rightarrow>
        (case checkOk response of
           (out, Inl e) \<Rightarrow> (out, Inl e)
         | (out, Inr u) \<Rightarrow> (out, Inr response))) = validated outcome"
proof (cases outcome)
  case (Inl e)
  then show ?thesis by (simp add: validated_def)
next
  case (Inr response)
  obtain out res where c: "checkOk response = (out, res)" by (cases "checkOk response")
  show ?thesis by (cases res) (simp_all add: validated_def Inr c)
qed

lemma fetchWithHeaders_no_headers:
  "fetchWithHeaders amb fetch url \<lparr> method = m, headers = None, body = b, signal = s \<rparr> =
     fetch url \<lparr> method = m, headers = Some (defaultHeaders amb), body = b, signal = s \<rparr>"
  by (simp add: fetchWithHeaders_def spread_def)

lemma stringify_two_bytes: "JSON_stringify (Uint8Array [1, 2]) = String ''{\"0\":1,\"1\":2}''"
  by (simp add: JSON_stringify_def quoteJSONString_def quote_char_def show_nat.simps digit_char_def)

text \<open>
  C2. A body of pre-encoded bytes is not passed through: a \<^verbatim>\<open>Uint8Array\<close> is an object
  that is neither \<^verbatim>\<open>null\<close> nor an array, so \<^verbatim>\<open>isRecord\<close> accepts it and the transport
  receives the JSON text of its indices instead of the bytes. A body of text is passed
  as it is.
\<close>

theorem post_bytes_are_stringified:
  "map_option body
     (sent_request (post node_ambient echo ''http://127.0.0.1:11434/api/blobs/sha256:0''
        (Uint8Array [1, 2]) (None :: nat post_options option)))
     = Some (String ''{\"0\":1,\"1\":2}'') \<and>
   map_option body
     (sent_request (post node_ambient echo ''http://127.0.0.1:11434/api/blobs/sha256:0''
        (String ''raw'') (None :: nat post_options option)))
     = Some (String ''raw'')"
  by (simp add: post_def fetchWithHeaders_def echo_def checkOk_def sent_request_def
      isRecord_def stringify_two_bytes)

text \<open>
  C9, as the claim states it, fails: \<^verbatim>\<open>get\<close>, \<^verbatim>\<open>head\<close> and \<^verbatim>\<open>del\<close> have no parameter
  for a cancellation token, and the request each of them hands to the transport has no
  signal.
\<close>

theorem get_head_del_send_no_signal:
  "map_option signal (sent_request (get node_ambient echo ''http://127.0.0.1:11434/api/tags''))
     = Some (None :: nat option) \<and>
   map_option signal (sent_request (head node_ambient echo ''http://127.0.0.1:11434/''))
     = Some (None :: nat option) \<and>
   map_option signal
     (sent_request (del node_ambient echo ''http://127.0.0.1:11434/api/delete''
        (Object [(''model'', String ''llama3'')])))
     = Some (None :: nat option)"
  by (simp add: get_def head_def del_def fetchWithHeaders_def no_options_def echo_def
      checkOk_def sent_request_def)

text \<open>
  C9, amended. Of the four wrappers only \<^verbatim>\<open>post\<close> takes a cancellation token, and it
  forwards the token as the signal of the request; \<^verbatim>\<open>get\<close>, \<^verbatim>\<open>head\<close> and \<^verbatim>\<open>del\<close>
  call the transport with a request that has no signal. Whatever the transport is, each
  wrapper calls it once, with the host and the request below, and returns its outcome
  through \<^verbatim>\<open>checkOk\<close>.
\<close>

theorem only_post_forwards_signal:
  "post amb fetch host data options =
     validated (fetch host
       \<lparr> method = Some ''POST'', headers = Some (defaultHeaders amb),
         body = (if isRecord data then JSON_stringify data else data),
         signal = map_option options_signal options \<rparr>) \<and>
   get amb fetch host =
     validated (fetch host
       \<lparr> method = None, headers = Some (defaultHeaders amb), body = Undefined,
         signal = None \<rparr>) \<and>
   head amb fetch host =
     validated (fetch host
       \<lparr> method = Some ''HEAD'', headers = Some (defaultHeaders amb), body = Undefined,
         signal = None \<rparr>) \<and>
   del amb fetch host data =
     validated (fetch host
       \<lparr> method = Some ''DELETE'', headers = Some (defaultHeaders amb),
         body = JSON_stringify data, signal = None \<rparr>)"
proof -
  have p: "post amb fetch host data options =
     validated (fetch host
       \<lparr> method = Some ''POST'', headers = Some (defaultHeaders amb),
         body = (if isRecord data then JSON_stringify data else data),
         signal = map_option options_signal options \<rparr>)"
    unfolding post_def Let_def fetchWithHeaders_no_headers by (rule checked_is_validated)
  have g: "get amb fetch host =
     validated (fetch host
       \<lparr> method = None, headers = Some (defaultHeaders amb), body = Undefined,
         signal = None \<rparr>)"
    unfolding get_def no_options_def fetchWithHeaders_no_headers by (rule checked_is_validated)
  have h: "head amb fetch host =
     validated (fetch host
       \<lparr> method = Some ''HEAD'', headers = Some (defaultHeaders amb), body = Undefined,
         signal = None \<rparr>)"
    unfolding head_def fetchWithHeaders_no_headers by (rule checked_is_validated)
  have d: "del amb fetch host data =
     validated (fetch host
       \<lparr> method = Some ''DELETE'', headers = Some (defaultHeaders amb),
         body = JSON_stringify data, signal = None \<rparr>)"
    unfolding del_def fetchWithHeaders_no_headers by (rule checked_is_validated)
  from p g h d show ?thesis by simp
qed

theorem only_post_forwards_signal_witness:
  "map_option signal
     (sent_request (post node_ambient echo ''http://127.0.0.1:11434/api/chat''
        (Object [(''model'', String ''llama3'')]) (Some (Options (7::nat)))))
     = Some (Some 7)"
  using only_post_forwards_signal [of node_ambient echo "''http://127.0.0.1:11434/api/chat''"
      "Object [(''model'', String ''llama3'')]" "Some (Options (7::nat))"]
  by (simp add: sent_request_echo)

section \<open>Properties of parseJSON\<close>

lemma split_not_Nil: "split sep xs \<noteq> []"
  by (induction xs) (auto split: list.splits)

lemma split_no_sep: "sep \<notin> set xs \<Longrightarrow> split sep xs = [xs]"
  by (induction xs) auto

lemma last_split_no_sep: "sep \<notin> set (last (split sep xs))"
  by (induction xs) (auto split: list.splits simp: split_not_Nil)

text \<open>
  Splitting a text that continues: the parts before the last separator stay, and the
  unfinished last part is split again with the continuation.
\<close>

lemma split_append:
  "split sep (xs @ ys) = butlast (split sep xs) @ split sep (last (split sep xs) @ ys)"
proof (induction xs)
  case Nil
  then show ?case by simp
next
  case (Cons c cs)
  show ?case
  proof (cases "c = sep")
    case True
    with Cons show ?thesis by (simp add: split_not_Nil)
  next
    case False
    obtain p ps where sp: "split sep cs = p # ps"
      using split_not_Nil [of sep cs] by (cases "split sep cs") auto
    show ?thesis
    proof (cases ps)
      case Nil
      with False sp Cons show ?thesis by simp
    next
      case (Cons q qs)
      with False sp Cons.IH show ?thesis by simp
    qed
  qed
qed

lemma pop_split: "pop (split sep xs) = (butlast (split sep xs), last (split sep xs))"
proof -
  obtain r l where "split sep xs = r @ [l]"
    using split_not_Nil [of sep xs] by (metis rev_exhaust)
  then show ?thesis by (simp add: pop_def)
qed

lemma for_parts_append: "for_parts parse (ps @ qs) = for_parts parse ps @ for_parts parse qs"
  by (induction ps) auto

lemma yields_for_parts: "yields (for_parts parse ps) = List.map_filter parse ps"
  by (induction ps) (auto simp: List.map_filter_simps split: option.splits)

text \<open>
  The invariant of the read loop: the buffer never holds a line feed, and from a buffer
  without one the loop handles exactly the complete lines of the buffer followed by the
  remaining text, and leaves the unfinished last line.
\<close>

lemma read_loop_lines:
  "new_line \<notin> set buffer \<Longrightarrow>
   read_loop parse buffer chunks =
     (for_parts parse (butlast (split new_line (buffer @ chunkwise_text chunks))),
      last (split new_line (buffer @ chunkwise_text chunks)))"
proof (induction chunks arbitrary: buffer)
  case Nil
  then show ?case by (simp add: chunkwise_text_def split_no_sep)
next
  case (Cons chunk chunks)
  let ?b1 = "buffer @ decode chunk"
  let ?b2 = "last (split new_line ?b1)"
  have ih: "read_loop parse ?b2 chunks =
     (for_parts parse (butlast (split new_line (?b2 @ chunkwise_text chunks))),
      last (split new_line (?b2 @ chunkwise_text chunks)))"
    by (rule Cons.IH) (rule last_split_no_sep)
  have whole: "split new_line (buffer @ chunkwise_text (chunk # chunks)) =
     butlast (split new_line ?b1) @ split new_line (?b2 @ chunkwise_text chunks)"
    using split_append [of new_line ?b1 "chunkwise_text chunks"] by (simp add: chunkwise_text_def)
  have ne: "split new_line (?b2 @ chunkwise_text chunks) \<noteq> []"
    by (rule split_not_Nil)
  show ?case
    by (simp add: Let_def pop_split ih whole ne butlast_append for_parts_append
        del: append_assoc)
qed

lemmas decode_eval = bytes_of_def decode_def first_byte_def initial_state_def utf16_def str_def

lemmas JSON_parse_eval = JSON_parse_def str_def scan_number_def scan_int_def scan_frac_def
  scan_exp_def is_digit_def digits_value_def

lemma chunkwise_parts_ndjson:
  "chunkwise_parts [ndjson_chunk1, ndjson_chunk2] =
     [str ''{\"a\":1}'', str ''not-json'', str ''{\"b\":2}'']"
proof -
  have d1: "decode ndjson_chunk1 = str ''{\"a\":1}'' @ [0x0A] @ str ''not-''"
    by (simp add: ndjson_chunk1_def decode_eval)
  have d2: "decode ndjson_chunk2 = str ''json'' @ [0x0A] @ str ''{\"b\":2}'' @ [0x0A]"
    by (simp add: ndjson_chunk2_def decode_eval)
  show ?thesis
    by (simp add: chunkwise_parts_def chunkwise_text_def d1 d2 new_line_def str_def)
qed

lemma JSON_parse_ndjson:
  "JSON_parse (str ''{\"a\":1}'') = Some (JObject [(str ''a'', JNumber 1 0)])"
  "JSON_parse (str ''not-json'') = None"
  "JSON_parse (str ''{\"b\":2}'') = Some (JObject [(str ''b'', JNumber 2 0)])"
  by (simp_all add: JSON_parse_eval)

text \<open>
  Whatever the chunks are and whatever \<^verbatim>\<open>JSON.parse\<close> accepts, the generator handles
  the parts of the chunkwise decoded text one by one, each exactly once and in their
  order: a part that parses is yielded, a part that does not is reported and skipped, and
  the parts after it are handled all the same.
\<close>

lemma parseJSON_chunkwise_parts:
  "parseJSON parse itr = for_parts parse (chunkwise_parts itr) \<and>
   yields (parseJSON parse itr) = List.map_filter parse (chunkwise_parts itr)"
proof -
  let ?parts = "split new_line (chunkwise_text itr)"
  have loop: "read_loop parse EMPTY_STRING itr = (for_parts parse (butlast ?parts), last ?parts)"
    using read_loop_lines [of EMPTY_STRING parse itr] by (simp add: EMPTY_STRING_def)
  have tail: "split new_line (last ?parts) = [last ?parts]"
    by (rule split_no_sep) (rule last_split_no_sep)
  have "parseJSON parse itr = for_parts parse (chunkwise_parts itr)"
    by (simp add: parseJSON_def loop tail chunkwise_parts_def for_parts_append Let_def)
  then show ?thesis by (simp add: yields_for_parts)
qed

lemma parseJSON_ndjson:
  "parseJSON JSON_parse [ndjson_chunk1, ndjson_chunk2] =
     [Yield (JObject [(str ''a'', JNumber 1 0)]), Warn (str ''not-json''),
      Yield (JObject [(str ''b'', JNumber 2 0)])]"
  using parseJSON_chunkwise_parts [of JSON_parse "[ndjson_chunk1, ndjson_chunk2]"]
  by (simp add: chunkwise_parts_ndjson JSON_parse_ndjson)

text \<open>
  A stream of ASCII bytes decodes to the same text chunk by chunk and as a whole, so for
  such a stream the parts the generator handles are the lines of the byte stream.
\<close>

lemma utf8_decoder_ascii:
  "list_all (\<lambda>b. b < 0x80) bytes \<Longrightarrow> utf8_decoder initial_state bytes = map unat bytes"
proof (induction bytes)
  case Nil
  then show ?case by (simp add: initial_state_def)
next
  case (Cons b bytes)
  from Cons.prems have "unat b \<le> 0x7F" by (simp add: word_less_nat_alt)
  then have fb: "first_byte (unat b) = ([unat b], initial_state)" by (simp add: first_byte_def)
  from Cons show ?case by (simp add: Let_def fb) (simp add: initial_state_def)
qed

lemma decode_ascii:
  assumes "list_all (\<lambda>b. b < 0x80) bytes"
  shows "decode bytes = map unat bytes"
proof -
  have small: "\<forall>n\<in>set (map unat bytes). n < 0x80"
    using assms by (auto simp: list_all_iff word_less_nat_alt)
  then have "concat (map utf16 (map unat bytes)) = map unat bytes"
    by (induction bytes) (simp_all add: utf16_def)
  moreover have "(case map unat bytes of [] \<Rightarrow> [] | item # items \<Rightarrow>
                   if item = 0xFEFF then items else item # items) = map unat bytes"
    using small by (cases bytes) auto
  ultimately show ?thesis by (simp add: decode_def utf8_decoder_ascii [OF assms])
qed

lemma parseJSON_ascii_lines:
  assumes "list_all (list_all (\<lambda>b. b < 0x80)) itr"
  shows "parseJSON parse itr = for_parts parse (byte_stream_lines itr)"
proof -
  from assms have "concat (map decode itr) = map unat (concat itr)"
    by (induction itr) (simp_all add: decode_ascii)
  moreover from assms have "list_all (\<lambda>b. b < 0x80) (concat itr)"
    by (induction itr) simp_all
  ultimately have "chunkwise_text itr = byte_stream_text itr"
    by (simp add: chunkwise_text_def byte_stream_text_def decode_ascii)
  then have "chunkwise_parts itr = byte_stream_lines itr"
    by (simp add: chunkwise_parts_def byte_stream_lines_def)
  with parseJSON_chunkwise_parts [of parse itr] show ?thesis by simp
qed

text \<open>
  C6. The values yielded are not always the values of the lines of the byte stream. The
  stream of \<^verbatim>\<open>{"a":"\<close>U+00E9\<^verbatim>\<open>"}\<close>, \<^verbatim>\<open>not-json\<close> and \<^verbatim>\<open>{"b":2}\<close>, cut between the two
  bytes of U+00E9, has three lines, of which the first and the third parse. The generator
  yields two values in that order and skips the malformed line, but the first value
  holds two replacement characters where the line has U+00E9: the value of that line is
  never yielded.
\<close>

theorem parseJSON_line_value_lost:
  "byte_stream_lines [accent_chunk1, accent_chunk2] =
     [accent_line, str ''not-json'', str ''{\"b\":2}''] \<and>
   List.map_filter JSON_parse (byte_stream_lines [accent_chunk1, accent_chunk2]) =
     [JObject [(str ''a'', JString [0xE9])], JObject [(str ''b'', JNumber 2 0)]] \<and>
   yields (parseJSON JSON_parse [accent_chunk1, accent_chunk2]) =
     [JObject [(str ''a'', JString [0xFFFD, 0xFFFD])], JObject [(str ''b'', JNumber 2 0)]]"
proof -
  have whole: "decode (concat [accent_chunk1, accent_chunk2]) =
     accent_line @ [0x0A] @ str ''not-json'' @ [0x0A] @ str ''{\"b\":2}'' @ [0x0A]"
    by (simp add: accent_chunk1_def accent_chunk2_def accent_line_def decode_eval)
  have d1: "decode accent_chunk1 = str ''{\"a\":\"'' @ [0xFFFD]"
    by (simp add: accent_chunk1_def decode_eval)
  have d2: "decode accent_chunk2 =
     [0xFFFD] @ str ''\"}'' @ [0x0A] @ str ''not-json'' @ [0x0A] @ str ''{\"b\":2}'' @ [0x0A]"
    by (simp add: accent_chunk2_def decode_eval)
  have lines: "byte_stream_lines [accent_chunk1, accent_chunk2] =
     [accent_line, str ''not-json'', str ''{\"b\":2}'']"
    unfolding byte_stream_lines_def byte_stream_text_def whole
    by (simp add: new_line_def str_def accent_line_def)
  have parts: "chunkwise_parts [accent_chunk1, accent_chunk2] =
     [replaced_line, str ''not-json'', str ''{\"b\":2}'']"
    by (simp add: chunkwise_parts_def chunkwise_text_def d1 d2 new_line_def str_def
        replaced_line_def)
  have p1: "JSON_parse accent_line = Some (JObject [(str ''a'', JString [0xE9])])"
    by (simp add: accent_line_def JSON_parse_eval)
  have p2: "JSON_parse replaced_line = Some (JObject [(str ''a'', JString [0xFFFD, 0xFFFD])])"
    by (simp add: replaced_line_def JSON_parse_eval)
  have line_values: "List.map_filter JSON_parse [accent_line, str ''not-json'', str ''{\"b\":2}''] =
     [JObject [(str ''a'', JString [0xE9])], JObject [(str ''b'', JNumber 2 0)]]"
    by (simp add: List.map_filter_simps p1 JSON_parse_ndjson)
  have yielded: "yields (parseJSON JSON_parse [accent_chunk1, accent_chunk2]) =
     [JObject [(str ''a'', JString [0xFFFD, 0xFFFD])], JObject [(str ''b'', JNumber 2 0)]]"
    using parseJSON_chunkwise_parts [of JSON_parse "[accent_chunk1, accent_chunk2]"]
    by (simp add: parts List.map_filter_simps p2 JSON_parse_ndjson)
  from lines line_values yielded show ?thesis by (simp only:)
qed

text \<open>
  C3. A character of two bytes cut by a chunk boundary is not decoded as one character:
  \<^verbatim>\<open>decode\<close> is called without \<^verbatim>\<open>{ stream: true }\<close>, so the first chunk's unfinished
  sequence and the second chunk's stray continuation byte each become U+FFFD. The line
  of the string U+00E9 in double quotes, delivered as the chunks \<^verbatim>\<open>22 C3\<close> and \<^verbatim>\<open>A9 22 0A\<close> yields a string of two
  replacement characters; delivered in one chunk it yields the string of U+00E9.
\<close>

theorem parseJSON_split_character:
  "yields (parseJSON JSON_parse [[0x22, 0xC3], [0xA9, 0x22, 0x0A]]) = [JString [0xFFFD, 0xFFFD]] \<and>
   yields (parseJSON JSON_parse [[0x22, 0xC3, 0xA9, 0x22, 0x0A]]) = [JString [0xE9]]"
proof -
  have d1: "decode [0x22, 0xC3] = [0x22, 0xFFFD]"
    by (simp add: decode_eval)
  have d2: "decode [0xA9, 0x22, 0x0A] = [0xFFFD, 0x22, 0x0A]"
    by (simp add: decode_eval)
  have d3: "decode [0x22, 0xC3, 0xA9, 0x22, 0x0A] = [0x22, 0xE9, 0x22, 0x0A]"
    by (simp add: decode_eval)
  have p1: "JSON_parse [0x22, 0xFFFD, 0xFFFD, 0x22] = Some (JString [0xFFFD, 0xFFFD])"
    by (simp add: JSON_parse_def)
  have p2: "JSON_parse [0x22, 0xE9, 0x22] = Some (JString [0xE9])"
    by (simp add: JSON_parse_def)
  have split_chunks:
    "yields (parseJSON JSON_parse [[0x22, 0xC3], [0xA9, 0x22, 0x0A]]) = [JString [0xFFFD, 0xFFFD]]"
    by (simp add: parseJSON_def d1 d2 p1 EMPTY_STRING_def new_line_def pop_def)
  have one_chunk:
    "yields (parseJSON JSON_parse [[0x22, 0xC3, 0xA9, 0x22, 0x0A]]) = [JString [0xE9]]"
    by (simp add: parseJSON_def d3 p2 EMPTY_STRING_def new_line_def pop_def)
  from split_chunks one_chunk show ?thesis by simp
qed

section \<open>Properties of formatHost\<close>

lemmas url_eval = new_URL_def preprocess_def parse_scheme_def is_ascii_alpha_def is_ascii_upper_def
  is_ascii_lower_def is_scheme_char_def is_ascii_digit_def is_c0_control_or_space_def code_def
  is_tab_or_newline_def to_lower_def is_special_def default_port_def is_slash_def
  parse_authority_def is_authority_end_def parse_host_def parse_domain_def
  has_punycode_label_def forbidden_domain_code_point_def forbidden_host_code_point_def
  ends_in_a_number_def ipv4_number_def radix_digit_def hex_digit_value_def parse_port_def
  parse_path_def is_path_end_def serialize_path_def percent_encode_def
  is_double_dot_def is_single_dot_def parse_search_def parse_hash_def path_set_def query_set_def
  c0_control_set_def endsWith_def number_of_def digit_value_def userinfo_set_def encode_at_def
  special_query_set_def fragment_set_def

lemmas formatHost_eval = formatHost_def endsWith_def slice_0_minus_1_def PORTS_HTTP_def
  PORTS_HTTPS_def PROTOCOLS_HTTPS_def

lemma show_nat_8080: "show_nat 8080 = ''8080''" by (simp add: show_nat.simps digit_char_def)

lemma new_URL_example_com:
  "new_URL ''http://example.com'' =
     Inr \<lparr> protocol = ''http:'', username = [], password = [], hostname = ''example.com'',
           port = [], pathname = ''/'', search = [], hash = [] \<rparr>"
  by (simp add: url_eval)

lemma new_URL_https_example_com:
  "new_URL ''https://example.com'' =
     Inr \<lparr> protocol = ''https:'', username = [], password = [], hostname = ''example.com'',
           port = [], pathname = ''/'', search = [], hash = [] \<rparr>"
  by (simp add: url_eval)

lemma new_URL_colon_port:
  "new_URL ''http://http://127.0.0.1:9999'' =
     Inr \<lparr> protocol = ''http:'', username = [], password = [], hostname = ''http'',
           port = [], pathname = ''//127.0.0.1:9999'', search = [], hash = [] \<rparr>"
  by (simp add: url_eval)



lemma new_URL_everything:
  "new_URL ''http://user:pw@example.com:8080/api?x=1#frag'' =
     Inr \<lparr> protocol = ''http:'', username = ''user'', password = ''pw'',
           hostname = ''example.com'', port = ''8080'', pathname = ''/api'',
           search = ''?x=1'', hash = ''#frag'' \<rparr>"
  by (simp add: url_eval show_nat_8080)

text \<open>
  C1. For the host \<^verbatim>\<open>:9999\<close> the function does prepend \<^verbatim>\<open>http://127.0.0.1\<close> and clears
  the flag, but with the flag cleared the next statement prepends \<^verbatim>\<open>http://\<close> a second
  time. The constructor reads \<^verbatim>\<open>http://http://127.0.0.1:9999\<close> as host \<^verbatim>\<open>http\<close> without a
  port and path \<^verbatim>\<open>//127.0.0.1:9999\<close>, so the result is not \<^verbatim>\<open>http://127.0.0.1:9999\<close>.
\<close>

theorem formatHost_colon_port:
  "formatHost local_endpoint new_URL '':9999'' = Inr ''http://http:11434//127.0.0.1:9999''"
  by (simp add: formatHost_eval new_URL_colon_port)


text \<open>
  C7. Whatever the constructor is: when the parsed URL has no port, the port of the
  target is 11434 if the flag \<^verbatim>\<open>isExplicitProtocol\<close> is false, and otherwise 443 for the
  protocol \<^verbatim>\<open>https:\<close> and 80 for any other; the scheme itself is not consulted when the
  flag is false.
\<close>

theorem default_port_by_flag:
  assumes "host \<noteq> []" and "URL (url_input host) = Inr u" and "port u = []"
  shows "formatHost L URL host =
     Inr (strip_slash (protocol u @ ''//'' @ hostname u @ '':'' @
            (if \<not> scheme_is_explicit host then ''11434''
             else if protocol u = ''https:'' then ''443'' else ''80'') @ pathname u))"
  using assms
  by (auto simp: formatHost_def url_input_def scheme_is_explicit_def strip_slash_def Let_def
      slice_0_minus_1_def PORTS_HTTP_def PORTS_HTTPS_def PROTOCOLS_HTTPS_def)

theorem default_port_by_flag_witness:
  "formatHost local_endpoint new_URL ''example.com'' = Inr ''http://example.com:11434'' \<and>
   formatHost local_endpoint new_URL ''https://example.com'' = Inr ''https://example.com:443'' \<and>
   formatHost local_endpoint new_URL ''http://example.com'' = Inr ''http://example.com:80''"
proof -
  have i1: "url_input ''example.com'' = ''http://example.com''"
    and i2: "url_input ''https://example.com'' = ''https://example.com''"
    and i3: "url_input ''http://example.com'' = ''http://example.com''"
    by (simp_all add: url_input_def)
  have e1: "\<not> scheme_is_explicit ''example.com''"
    and e2: "scheme_is_explicit ''https://example.com''"
    and e3: "scheme_is_explicit ''http://example.com''"
    by (simp_all add: scheme_is_explicit_def)
  from default_port_by_flag [of "''example.com''" new_URL _ local_endpoint]
    default_port_by_flag [of "''https://example.com''" new_URL _ local_endpoint]
    default_port_by_flag [of "''http://example.com''" new_URL _ local_endpoint]
  show ?thesis
    by (simp add: i1 i2 i3 e1 e2 e3 new_URL_example_com new_URL_https_example_com
        strip_slash_def endsWith_def)
qed

text \<open>
  C10. Whatever the constructor is, and for every host that is not empty: the result is
  the constructor's failure, or the string made of the parsed URL's protocol, two
  slashes, its hostname, a colon, its port or the chosen default, and its pathname,
  without one trailing slash. Nothing else of the parsed URL or of the host enters the
  target: neither the user name, nor the password, nor the query, nor the fragment.
\<close>

theorem formatHost_target:
  assumes "host \<noteq> []"
  shows "formatHost L URL host =
     (case URL (url_input host) of
        Inl e \<Rightarrow> Inl e
      | Inr u \<Rightarrow>
          Inr (strip_slash
                 (protocol u @ ''//'' @ hostname u @ '':'' @
                  (if port u \<noteq> [] then port u
                   else if \<not> scheme_is_explicit host then ''11434''
                   else if protocol u = ''https:'' then ''443'' else ''80'') @
                  pathname u)))"
proof (cases "URL (url_input host)")
  case (Inl e)
  with assms show ?thesis
    by (cases "startsWith host '':''"; cases "includesStr host ''://''")
      (simp_all add: formatHost_def Let_def url_input_def)
next
  case (Inr u)
  with assms show ?thesis
    by (cases "startsWith host '':''"; cases "includesStr host ''://''")
      (simp_all add: formatHost_def Let_def url_input_def scheme_is_explicit_def strip_slash_def
        slice_0_minus_1_def PORTS_HTTP_def PORTS_HTTPS_def PROTOCOLS_HTTPS_def)
qed

theorem formatHost_target_witness:
  "''http://user:pw@example.com:8080/api?x=1#frag'' \<noteq> [] \<and>
   new_URL (url_input ''http://user:pw@example.com:8080/api?x=1#frag'') =
     Inr \<lparr> protocol = ''http:'', username = ''user'', password = ''pw'',
           hostname = ''example.com'', port = ''8080'', pathname = ''/api'',
           search = ''?x=1'', hash = ''#frag'' \<rparr> \<and>
   formatHost local_endpoint new_URL ''http://user:pw@example.com:8080/api?x=1#frag'' =
     Inr ''http://example.com:8080/api''"
proof -
  have ne: "''http://user:pw@example.com:8080/api?x=1#frag'' \<noteq> []" by simp
  have i: "url_input ''http://user:pw@example.com:8080/api?x=1#frag'' =
           ''http://user:pw@example.com:8080/api?x=1#frag''"
    by (simp add: url_input_def)
  from formatHost_target [OF ne, of local_endpoint new_URL] show ?thesis
    by (simp add: i new_URL_everything strip_slash_def endsWith_def)
qed

subsection \<open>Decimal numbers\<close>







subsection \<open>Code units of hosts, ports and paths\<close>












subsection \<open>The stages of the parser on a plain host string\<close>


















lemma plain_host_chars:
  assumes "plain_host h"
  shows "list_all host_char h" and "h \<noteq> []"
  using assms by (simp_all add: plain_host_def)



























subsection \<open>Resolution of a plain host string\<close>
























end
